theory Spec2Isabelle
  imports Complex_Main "HOL-Library.Word"
begin

section \<open>Python values shared by the nodes of \<^verbatim>\<open>nodes.py\<close>\<close>

text \<open>
  Every \<^verbatim>\<open>raise\<close> of the source, and every failing subscript or library call the
  source leaves uncaught, is a value of \<open>py_error\<close>; a node returns
  \<open>py_error + result\<close> with \<open>Inl\<close> for the exception. What a node does besides
  returning (attribute writes, log lines, calls into the pipeline and the cropper) is
  recorded, in program order, in a list of events that the node returns with its result.
  Progress bars are not modelled.
\<close>

datatype py_error =
    ValueError string
  | AttributeError string
  | KeyError string
  | IndexError
  | TypeError
  | RuntimeError

text \<open>
  A landmark array is an \<open>N \<times> 2\<close> numpy array: a list of rows \<open>(x, y)\<close>. Its
  arithmetic is modelled over the reals (exact arithmetic), not over IEEE floats.
\<close>

type_synonym landmarks = "(real \<times> real) list"

section \<open>\<^verbatim>\<open>InferenceConfig\<close> (lines 31--60)\<close>

text \<open>
  A mask image is a numpy array of bytes, height by width by channels. The device is
  the integer of the constructor's default or the torch device the loader passes.
\<close>

type_synonym byte_image = "8 word list list list"

datatype device = DeviceIndex int | TorchDevice string

text \<open>
  The attributes of the configuration object. The two multipliers are no parameters of
  the constructor: \<^verbatim>\<open>LivePortraitProcess.process\<close> creates them by assignment, and
  \<open>None\<close> stands for the attribute that does not exist yet. \<open>mask_crop = None\<close> is
  Python's \<^verbatim>\<open>None\<close>.
\<close>

record inference_config =
  flag_use_half_precision :: bool
  flag_lip_zero :: bool
  lip_zero_threshold :: real
  flag_eye_retargeting :: bool
  flag_lip_retargeting :: bool
  flag_stitching :: bool
  flag_relative :: bool
  input_shape :: "nat \<times> nat"
  flag_pasteback :: bool
  device_id :: device
  flag_do_crop :: bool
  flag_do_rot :: bool
  mask_crop :: "byte_image option"
  eyes_retargeting_multiplier :: "real option"
  lip_retargeting_multiplier :: "real option"

text \<open>
  The constructor called with no argument: every parameter at its default.
\<close>

definition InferenceConfig_defaults :: inference_config where
  "InferenceConfig_defaults =
     \<lparr> flag_use_half_precision = True, flag_lip_zero = True, lip_zero_threshold = 0.03,
       flag_eye_retargeting = False, flag_lip_retargeting = False, flag_stitching = True,
       flag_relative = True, input_shape = (256, 256), flag_pasteback = True,
       device_id = DeviceIndex 0, flag_do_crop = True, flag_do_rot = True, mask_crop = None,
       eyes_retargeting_multiplier = None, lip_retargeting_multiplier = None \<rparr>"

section \<open>\<^verbatim>\<open>DownloadAndLoadLivePortraitModels.loadmodel\<close> (lines 84--230)\<close>

text \<open>
  What the loader asks of ComfyUI and of the file system is a parameter: the torch
  device, the answers of \<^verbatim>\<open>mm.is_device_mps\<close> and \<^verbatim>\<open>mm.should_use_fp16\<close> (either
  may raise), and the outcome of lines 105--216, which download the weights, read
  \<^verbatim>\<open>models.yaml\<close> and build the five networks; these lines neither read nor write
  \<^verbatim>\<open>precision\<close> or \<^verbatim>\<open>dtype\<close>, and any of them may raise.
\<close>

record 'mods comfy_host =
  get_torch_device :: device
  is_device_mps :: "py_error + bool"
  should_use_fp16 :: "py_error + bool"
  load_networks :: "py_error + 'mods"

datatype load_event = LoadEmptyCache | Print string

text \<open>
  The pipeline object: the networks it was built from and its configuration
  (\<^verbatim>\<open>pipeline.live_portrait_wrapper.cfg\<close>).
\<close>

record 'mods pipeline =
  pipeline_networks :: 'mods
  pipeline_cfg :: inference_config

text \<open>
  Lines 88--103. The bare \<^verbatim>\<open>except\<close> turns every exception of the autodetection
  into an AttributeError. The local variable \<^verbatim>\<open>dtype\<close> is printed and never read again.
\<close>

definition resolve_dtype :: "'mods comfy_host \<Rightarrow> string \<Rightarrow> load_event list \<times> (py_error + string)" where
  "resolve_dtype C precision =
     (if precision = ''auto'' then
        (case is_device_mps C of
           Inl e \<Rightarrow>
             ([], Inl (AttributeError
                ''ComfyUI version too old, can't autodetect properly. Set your dtypes manually.''))
         | Inr True \<Rightarrow> ([Print ''LivePortrait using fp32 for MPS''], Inr ''fp32'')
         | Inr False \<Rightarrow>
             (case should_use_fp16 C of
                Inl e \<Rightarrow>
                  ([], Inl (AttributeError
                     ''ComfyUI version too old, can't autodetect properly. Set your dtypes manually.''))
              | Inr True \<Rightarrow> ([Print ''LivePortrait using fp16''], Inr ''fp16'')
              | Inr False \<Rightarrow> ([Print ''LivePortrait using fp32''], Inr ''fp32'')))
      else ([Print (''LivePortrait using '' @ precision)], Inr precision))"

text \<open>
  Lines 85--86 and 218--230: the configuration is built from \<^verbatim>\<open>precision\<close>, the
  option as the caller gave it, not from \<^verbatim>\<open>dtype\<close>.
\<close>

definition loadmodel ::
  "'mods comfy_host \<Rightarrow> string \<Rightarrow> load_event list \<times> (py_error + 'mods pipeline)" where
  "loadmodel C precision =
     (let device = get_torch_device C
      in case resolve_dtype C precision of
           (ev, Inl e) \<Rightarrow> (LoadEmptyCache # ev, Inl e)
         | (ev, Inr dtype) \<Rightarrow>
             (case load_networks C of
                Inl e \<Rightarrow> (LoadEmptyCache # ev, Inl e)
              | Inr networks \<Rightarrow>
                  (LoadEmptyCache # ev,
                   Inr \<lparr> pipeline_networks = networks,
                         pipeline_cfg =
                           InferenceConfig_defaults
                             \<lparr> device_id := device,
                               flag_use_half_precision :=
                                 (if precision = ''fp16'' then True else False) \<rparr> \<rparr>)))"

section \<open>Image batches\<close>

text \<open>
  An \<^verbatim>\<open>IMAGE\<close> is a batch of frames; \<^verbatim>\<open>t.shape[0]\<close> and \<^verbatim>\<open>len(t)\<close> are the
  length of the list, \<^verbatim>\<open>t[i]\<close> is its \<open>i\<close>-th frame. A frame records its spatial
  size, its layout and its element type; its pixel data is of an arbitrary type \<open>'px\<close>,
  and what torch, numpy and ComfyUI compute on pixel data is a parameter.
\<close>

datatype dtype = Float32 | Float16 | UInt8

datatype layout = HWC | CHW

record 'px frame =
  height :: nat
  width :: nat
  layout :: layout
  dtype :: dtype
  pixels :: 'px

record 'px tensor_ops =
  mul255_byte :: "'px \<Rightarrow> 'px"
  div255_float :: "'px \<Rightarrow> 'px"
  channels_first :: "'px \<Rightarrow> 'px"
  lanczos :: "nat \<Rightarrow> nat \<Rightarrow> 'px \<Rightarrow> 'px"
  half :: "'px \<Rightarrow> 'px"

text \<open>
  \<^verbatim>\<open>(t * 255).byte().numpy()\<close> and, back, \<^verbatim>\<open>torch.stack([torch.from_numpy(a) ...]) / 255\<close>
  on a list that is not empty.
\<close>

definition to_uint8 :: "'px tensor_ops \<Rightarrow> 'px frame list \<Rightarrow> 'px frame list" where
  "to_uint8 T images = map (\<lambda>f. f\<lparr> dtype := UInt8, pixels := mul255_byte T (pixels f) \<rparr>) images"

definition from_uint8 :: "'px tensor_ops \<Rightarrow> 'px frame list \<Rightarrow> 'px frame list" where
  "from_uint8 T arrays = map (\<lambda>f. f\<lparr> dtype := Float32, pixels := div255_float T (pixels f) \<rparr>) arrays"

text \<open>
  \<^verbatim>\<open>t.permute(0, 3, 1, 2)\<close>: every frame from height, width, channels to channels,
  height, width.
\<close>

definition permute_0312 :: "'px tensor_ops \<Rightarrow> 'px frame list \<Rightarrow> 'px frame list" where
  "permute_0312 T images = map (\<lambda>f. f\<lparr> layout := CHW, pixels := channels_first T (pixels f) \<rparr>) images"

text \<open>
  \<^verbatim>\<open>comfy.utils.common_upscale(samples, width, height, "lanczos", "disabled")\<close>, a
  function of the host: with cropping disabled and the method \<^verbatim>\<open>lanczos\<close> it resizes
  every sample on its own to the width and height asked for and stacks the results;
  stacking no sample raises.
\<close>

definition common_upscale_lanczos ::
  "'px tensor_ops \<Rightarrow> 'px frame list \<Rightarrow> nat \<Rightarrow> nat \<Rightarrow> py_error + 'px frame list" where
  "common_upscale_lanczos T samples w h =
     (if samples = [] then Inl RuntimeError
      else Inr (map (\<lambda>f. f\<lparr> height := h, width := w, pixels := lanczos T w h (pixels f) \<rparr>) samples))"

text \<open>
  \<^verbatim>\<open>t.to(torch.float16)\<close>.
\<close>

definition to_float16 :: "'px tensor_ops \<Rightarrow> 'px frame list \<Rightarrow> 'px frame list" where
  "to_float16 T images = map (\<lambda>f. f\<lparr> dtype := Float16, pixels := half T (pixels f) \<rparr>) images"

section \<open>\<^verbatim>\<open>LivePortraitProcess.process\<close> (lines 278--355)\<close>

subsection \<open>The mask (lines 315--319)\<close>

text \<open>
  A \<^verbatim>\<open>MASK\<close> is a batch of two-dimensional arrays of floats. \<^verbatim>\<open>astype(np.uint8)\<close>
  truncates towards zero and keeps the low eight bits; the product with 255 is taken
  over the reals.
\<close>

definition astype_uint8 :: "real \<Rightarrow> 8 word" where
  "astype_uint8 x = word_of_int (if 0 \<le> x then \<lfloor>x\<rfloor> else \<lceil>x\<rceil>)"

text \<open>
  \<^verbatim>\<open>np.atleast_3d\<close> on a two-dimensional array adds a last axis of length one;
  \<^verbatim>\<open>np.repeat(a, n, axis=2)\<close> repeats every entry along that axis \<open>n\<close> times.
\<close>

definition atleast_3d :: "'a list list \<Rightarrow> 'a list list list" where
  "atleast_3d a = map (map (\<lambda>x. [x])) a"

definition repeat_axis2 :: "nat \<Rightarrow> 'a list list list \<Rightarrow> 'a list list list" where
  "repeat_axis2 n a = map (map (\<lambda>px. concat (map (replicate n) px))) a"

text \<open>
  \<^verbatim>\<open>mask[0]\<close> raises IndexError on an empty batch.
\<close>

definition crop_mask_of :: "real list list list \<Rightarrow> py_error + byte_image" where
  "crop_mask_of mask_tensor =
     (case mask_tensor of
        [] \<Rightarrow> Inl IndexError
      | crop_mask # _ \<Rightarrow>
          Inr (repeat_axis2 3 (atleast_3d (map (map (\<lambda>x. astype_uint8 (x * 255))) crop_mask))))"

subsection \<open>The node\<close>

text \<open>
  The events of one call: an assignment to an attribute of the configuration, by name;
  a log line; the call of \<^verbatim>\<open>pipeline.execute\<close>, with the configuration as it stands
  at the call and the four arguments.
\<close>

datatype ('px, 'ci) process_event =
    CfgWrite string
  | LogWarning string
  | LogInfo string
  | ExecuteCall inference_config "'px frame list" "'px frame list" 'ci string

text \<open>
  \<^verbatim>\<open>LivePortraitPipeline\<close> is code of the repository that is not among the sources.
  Its method \<^verbatim>\<open>execute\<close> is a parameter: it receives the configuration and the four
  arguments, may change the configuration, and returns the three output lists or
  raises. \<^verbatim>\<open>cv2.imread\<close> of the mask template answers \<^verbatim>\<open>None\<close> when the file cannot
  be read. Lines 338--355, which turn the three lists into tensors and may raise, are
  the parameter \<open>output_tensors\<close>.
\<close>

record ('px, 'ci, 'outs, 'res) pipeline_host =
  imread_mask_template :: "byte_image option"
  execute :: "inference_config \<Rightarrow> 'px frame list \<Rightarrow> 'px frame list \<Rightarrow> 'ci \<Rightarrow> string \<Rightarrow>
                inference_config \<times> (py_error + 'outs)"
  output_tensors :: "'outs \<Rightarrow> py_error + 'res"

text \<open>
  The inputs of the node, under the names of the parameters of \<^verbatim>\<open>process\<close>.
\<close>

record ('px, 'ci) process_inputs =
  p_source_image :: "'px frame list"
  p_driving_images :: "'px frame list"
  p_crop_info :: 'ci
  p_lip_zero :: bool
  p_lip_zero_threshold :: real
  p_eye_retargeting :: bool
  p_lip_retargeting :: bool
  p_stitching :: bool
  p_relative :: bool
  p_eyes_retargeting_multiplier :: real
  p_lip_retargeting_multiplier :: real
  p_mismatch_method :: string
  p_mask :: "real list list list option"

text \<open>
  Lines 299--310: eight assignments, in this order.
\<close>

definition write_retargeting_cfg ::
  "('px, 'ci) process_inputs \<Rightarrow> inference_config \<Rightarrow> inference_config \<times> ('px, 'ci) process_event list" where
  "write_retargeting_cfg inp cfg =
     (cfg\<lparr> flag_eye_retargeting := p_eye_retargeting inp,
           eyes_retargeting_multiplier := Some (p_eyes_retargeting_multiplier inp),
           flag_lip_retargeting := p_lip_retargeting inp,
           lip_retargeting_multiplier := Some (p_lip_retargeting_multiplier inp),
           flag_stitching := p_stitching inp,
           flag_relative := p_relative inp,
           flag_lip_zero := p_lip_zero inp,
           lip_zero_threshold := p_lip_zero_threshold inp \<rparr>,
      [CfgWrite ''flag_eye_retargeting'', CfgWrite ''eyes_retargeting_multiplier'',
       CfgWrite ''flag_lip_retargeting'', CfgWrite ''lip_retargeting_multiplier'',
       CfgWrite ''flag_stitching'', CfgWrite ''flag_relative'',
       CfgWrite ''flag_lip_zero'', CfgWrite ''lip_zero_threshold''])"

text \<open>
  Lines 312--313.
\<close>

definition lip_zero_warning :: "('px, 'ci) process_inputs \<Rightarrow> ('px, 'ci) process_event list" where
  "lip_zero_warning inp =
     (if p_lip_zero inp \<and> (p_lip_retargeting inp \<or> p_eye_retargeting inp)
      then [LogWarning ''Warning: lip_zero only has an effect with lip or eye retargeting'']
      else [])"

text \<open>
  Lines 315--322.
\<close>

definition set_mask_crop ::
  "('px, 'ci, 'outs, 'res) pipeline_host \<Rightarrow> real list list list option \<Rightarrow> inference_config \<Rightarrow>
     inference_config \<times> ('px, 'ci) process_event list \<times> (py_error + unit)" where
  "set_mask_crop P mask_opt cfg =
     (case mask_opt of
        Some m \<Rightarrow>
          (case crop_mask_of m of
             Inl e \<Rightarrow> (cfg, [], Inl e)
           | Inr crop_mask \<Rightarrow> (cfg\<lparr> mask_crop := Some crop_mask \<rparr>, [CfgWrite ''mask_crop''], Inr ()))
      | None \<Rightarrow>
          (cfg\<lparr> mask_crop := imread_mask_template P \<rparr>,
           [LogInfo ''Using default mask template'', CfgWrite ''mask_crop''], Inr ()))"

text \<open>
  Lines 324--326.
\<close>

definition driving_images_256_of ::
  "'px tensor_ops \<Rightarrow> inference_config \<Rightarrow> 'px frame list \<Rightarrow> py_error + 'px frame list" where
  "driving_images_256_of T cfg driving_images =
     (case common_upscale_lanczos T (permute_0312 T driving_images) 256 256 of
        Inl e \<Rightarrow> Inl e
      | Inr driving_images_256 \<Rightarrow>
          Inr (if flag_use_half_precision cfg then to_float16 T driving_images_256
               else driving_images_256))"

text \<open>
  The whole method. A raise leaves the configuration as the assignments before it
  made it.
\<close>

definition LivePortraitProcess_process ::
  "'px tensor_ops \<Rightarrow> ('px, 'ci, 'outs, 'res) pipeline_host \<Rightarrow> inference_config \<Rightarrow>
     ('px, 'ci) process_inputs \<Rightarrow>
     inference_config \<times> ('px, 'ci) process_event list \<times> (py_error + 'res)" where
  "LivePortraitProcess_process T P cfg0 inp =
     (if length (p_driving_images inp) < length (p_source_image inp) then
        (cfg0, [],
         Inl (ValueError ''The number of driving images should be larger than the number of source images.''))
      else
        (let source_np = to_uint8 T (p_source_image inp);
             (cfg1, ev1) = write_retargeting_cfg inp cfg0;
             ev2 = lip_zero_warning inp
         in case set_mask_crop P (p_mask inp) cfg1 of
              (cfg2, ev3, Inl e) \<Rightarrow> (cfg2, ev1 @ ev2 @ ev3, Inl e)
            | (cfg2, ev3, Inr _) \<Rightarrow>
                (case driving_images_256_of T cfg2 (p_driving_images inp) of
                   Inl e \<Rightarrow> (cfg2, ev1 @ ev2 @ ev3, Inl e)
                 | Inr driving_images_256 \<Rightarrow>
                     (let call = ExecuteCall cfg2 source_np driving_images_256 (p_crop_info inp)
                                   (p_mismatch_method inp);
                          (cfg3, r) = execute P cfg2 source_np driving_images_256 (p_crop_info inp)
                                        (p_mismatch_method inp)
                      in (cfg3, ev1 @ ev2 @ ev3 @ [call],
                          case r of
                            Inl e \<Rightarrow> Inl e
                          | Inr outs \<Rightarrow> output_tensors P outs)))))"


text \<open>
  Reading a list of events: the attributes assigned, the warnings logged.
\<close>

fun cfg_writes :: "('px, 'ci) process_event list \<Rightarrow> string list" where
  "cfg_writes [] = []"
| "cfg_writes (CfgWrite n # es) = n # cfg_writes es"
| "cfg_writes (_ # es) = cfg_writes es"

fun warnings :: "('px, 'ci) process_event list \<Rightarrow> string list" where
  "warnings [] = []"
| "warnings (LogWarning w # es) = w # warnings es"
| "warnings (_ # es) = warnings es"

text \<open>
  The fields of the retargeting configuration, in the order the method assigns them.
\<close>

definition retargeting_fields :: "string list" where
  "retargeting_fields =
     [''flag_eye_retargeting'', ''eyes_retargeting_multiplier'', ''flag_lip_retargeting'',
      ''lip_retargeting_multiplier'', ''flag_stitching'', ''flag_relative'', ''flag_lip_zero'',
      ''lip_zero_threshold'', ''mask_crop'']"

section \<open>\<^verbatim>\<open>LivePortraitCropper.process\<close> (lines 387--436)\<close>

text \<open>
  The node object keeps two attributes between calls. \<open>NoAttribute\<close> is the attribute
  that was never assigned (\<^verbatim>\<open>hasattr\<close> is false), \<open>IsNone\<close> is \<^verbatim>\<open>None\<close>.
\<close>

record cropper_config =
  keep_model_loaded :: bool
  onnx_device :: string

datatype 'a attribute = NoAttribute | IsNone | Object 'a

record 'crp cropper_node =
  cropper :: "'crp attribute"
  current_config :: "cropper_config option"

definition fresh_node :: "'crp cropper_node" where
  "fresh_node = \<lparr> cropper = NoAttribute, current_config = None \<rparr>"

text \<open>
  Modelled from the spec: the parameter list of \<^verbatim>\<open>Cropper.crop_single_image\<close>. The
  class \<^verbatim>\<open>Cropper\<close> is code of the repository that is not among the sources; the
  specification gives its contract as
  \<^verbatim>\<open>crop(image, dsize, scale, vx_ratio, vy_ratio, face_index, rotate)\<close>, and a call binds
  its positional arguments to these parameters from left to right.
\<close>

record 'px crop_args =
  arg_image :: "'px frame"
  arg_dsize :: int
  arg_scale :: real
  arg_vx_ratio :: real
  arg_vy_ratio :: real
  arg_face_index :: int
  arg_rotate :: bool

definition positional_crop_args ::
  "'px frame \<Rightarrow> int \<Rightarrow> real \<Rightarrow> real \<Rightarrow> real \<Rightarrow> int \<Rightarrow> bool \<Rightarrow> 'px crop_args" where
  "positional_crop_args a1 a2 a3 a4 a5 a6 a7 =
     \<lparr> arg_image = a1, arg_dsize = a2, arg_scale = a3, arg_vx_ratio = a4, arg_vy_ratio = a5,
       arg_face_index = a6, arg_rotate = a7 \<rparr>"

text \<open>
  Of the dictionary a crop returns, the node reads the keys \<^verbatim>\<open>'img_crop_256x256'\<close>
  and \<^verbatim>\<open>'lmk_crop'\<close>. The constructor of the cropper and its method are parameters; both
  may raise.
\<close>

record 'px crop_result =
  img_crop_256x256 :: "'px frame"
  lmk_crop :: landmarks

record ('crp, 'px) cropper_host =
  new_Cropper :: "cropper_config \<Rightarrow> py_error + 'crp"
  crop_single_image :: "'crp \<Rightarrow> 'px crop_args \<Rightarrow> py_error + 'px crop_result"

datatype ('crp, 'px) cropper_event =
    NewCropper cropper_config
  | CropCall 'crp "'px crop_args"
  | SoftEmptyCache

record 'px cropper_inputs =
  c_source_image :: "'px frame list"
  c_dsize :: int
  c_scale :: real
  c_vx_ratio :: real
  c_vy_ratio :: real
  c_face_index :: int
  c_rotate :: bool
  c_keep_model_loaded :: bool
  c_onnx_device :: string
  c_opt_driving_images :: "'px frame list option"

text \<open>
  The dictionary the node returns; the key \<^verbatim>\<open>'driving_landmark_list'\<close> exists only
  when driving images were given.
\<close>

record 'px crop_info_dict =
  dict_crop_info_list :: "'px crop_result list"
  dict_driving_landmark_list :: "landmarks list option"

text \<open>
  Lines 390--393.
\<close>

definition cropper_init_config :: "'px cropper_inputs \<Rightarrow> cropper_config" where
  "cropper_init_config inp =
     \<lparr> keep_model_loaded = c_keep_model_loaded inp, onnx_device = c_onnx_device inp \<rparr>"

text \<open>
  Lines 395--397. The three tests are evaluated from left to right: a node whose
  cropper is an object and whose \<^verbatim>\<open>current_config\<close> was never assigned raises
  AttributeError. \<^verbatim>\<open>current_config\<close> is assigned before the constructor runs.
\<close>

definition ensure_cropper ::
  "('crp, 'px) cropper_host \<Rightarrow> 'crp cropper_node \<Rightarrow> cropper_config \<Rightarrow>
     'crp cropper_node \<times> ('crp, 'px) cropper_event list \<times> (py_error + 'crp)" where
  "ensure_cropper H node cfg =
     (case cropper node of
        Object c \<Rightarrow>
          (case current_config node of
             None \<Rightarrow> (node, [], Inl (AttributeError ''current_config''))
           | Some cur \<Rightarrow>
               if cur \<noteq> cfg then
                 (case new_Cropper H cfg of
                    Inl e \<Rightarrow> (node\<lparr> current_config := Some cfg \<rparr>, [NewCropper cfg], Inl e)
                  | Inr c' \<Rightarrow>
                      (node\<lparr> current_config := Some cfg, cropper := Object c' \<rparr>, [NewCropper cfg], Inr c'))
               else (node, [], Inr c))
      | _ \<Rightarrow>
          (case new_Cropper H cfg of
             Inl e \<Rightarrow> (node\<lparr> current_config := Some cfg \<rparr>, [NewCropper cfg], Inl e)
           | Inr c' \<Rightarrow>
               (node\<lparr> current_config := Some cfg, cropper := Object c' \<rparr>, [NewCropper cfg], Inr c')))"

text \<open>
  Lines 407--417: the loop over \<^verbatim>\<open>range(len(source_image_np))\<close>, by recursion over
  the list of indices. \<^verbatim>\<open>driving_images_np[i]\<close> raises IndexError past the end of the
  driving batch.
\<close>

fun crop_loop ::
  "('crp, 'px) cropper_host \<Rightarrow> 'crp \<Rightarrow> 'px cropper_inputs \<Rightarrow> 'px frame list \<Rightarrow>
     'px frame list option \<Rightarrow> nat list \<Rightarrow>
     'px crop_result list \<times> 'px frame list \<times> landmarks list \<Rightarrow>
     ('crp, 'px) cropper_event list \<times>
       (py_error + 'px crop_result list \<times> 'px frame list \<times> landmarks list)" where
  "crop_loop H c inp source_image_np driving_images_np [] acc = ([], Inr acc)"
| "crop_loop H c inp source_image_np driving_images_np (i # is)
     (crop_info_list, cropped_images_list, driving_landmark_list) =
     (let a = positional_crop_args (source_image_np ! i) (c_dsize inp) (c_scale inp)
                (c_vy_ratio inp) (c_vx_ratio inp) (c_face_index inp) (c_rotate inp)
      in case crop_single_image H c a of
           Inl e \<Rightarrow> ([CropCall c a], Inl e)
         | Inr crop_info \<Rightarrow>
             (case driving_images_np of
                None \<Rightarrow>
                  (let (evs, r) =
                         crop_loop H c inp source_image_np driving_images_np is
                           (crop_info_list @ [crop_info],
                            cropped_images_list @ [img_crop_256x256 crop_info],
                            driving_landmark_list)
                   in (CropCall c a # evs, r))
              | Some d \<Rightarrow>
                  if i < length d then
                    (let b = positional_crop_args (d ! i) (c_dsize inp) (c_scale inp)
                               (c_vy_ratio inp) (c_vx_ratio inp) (c_face_index inp) (c_rotate inp)
                     in case crop_single_image H c b of
                          Inl e \<Rightarrow> ([CropCall c a, CropCall c b], Inl e)
                        | Inr driving_crop_dict \<Rightarrow>
                            (let (evs, r) =
                                   crop_loop H c inp source_image_np driving_images_np is
                                     (crop_info_list @ [crop_info],
                                      cropped_images_list @ [img_crop_256x256 crop_info],
                                      driving_landmark_list @ [lmk_crop driving_crop_dict])
                             in (CropCall c a # CropCall c b # evs, r)))
                  else ([CropCall c a], Inl IndexError)))"

text \<open>
  The whole method. The cropper is released (lines 419--421) only when the loop has
  ended without a raise.
\<close>

definition LivePortraitCropper_process ::
  "'px tensor_ops \<Rightarrow> ('crp, 'px) cropper_host \<Rightarrow> 'crp cropper_node \<Rightarrow> 'px cropper_inputs \<Rightarrow>
     'crp cropper_node \<times> ('crp, 'px) cropper_event list \<times>
       (py_error + 'px frame list \<times> 'px crop_info_dict)" where
  "LivePortraitCropper_process T H node inp =
     (let source_image_np = to_uint8 T (c_source_image inp)
      in case ensure_cropper H node (cropper_init_config inp) of
           (node1, ev1, Inl e) \<Rightarrow> (node1, ev1, Inl e)
         | (node1, ev1, Inr c) \<Rightarrow>
             (let driving_images_np = map_option (to_uint8 T) (c_opt_driving_images inp)
              in case crop_loop H c inp source_image_np driving_images_np
                        [0..<length source_image_np] ([], [], []) of
                   (ev2, Inl e) \<Rightarrow> (node1, ev1 @ ev2, Inl e)
                 | (ev2, Inr (crop_info_list, cropped_images_list, driving_landmark_list)) \<Rightarrow>
                     (let (node2, ev3) =
                            (if \<not> c_keep_model_loaded inp
                             then (node1\<lparr> cropper := IsNone \<rparr>, [SoftEmptyCache])
                             else (node1, []))
                      in (node2, ev1 @ ev2 @ ev3,
                          if cropped_images_list = [] then Inl RuntimeError
                          else Inr (from_uint8 T cropped_images_list,
                                    \<lparr> dict_crop_info_list = crop_info_list,
                                      dict_driving_landmark_list =
                                        (case c_opt_driving_images inp of
                                           None \<Rightarrow> None
                                         | Some _ \<Rightarrow> Some driving_landmark_list) \<rparr>)))))"

text \<open>
  Reading a list of events: the croppers constructed, the crops called.
\<close>

fun new_croppers :: "('crp, 'px) cropper_event list \<Rightarrow> cropper_config list" where
  "new_croppers [] = []"
| "new_croppers (NewCropper cfg # es) = cfg # new_croppers es"
| "new_croppers (_ # es) = new_croppers es"

fun crop_calls :: "('crp, 'px) cropper_event list \<Rightarrow> ('crp \<times> 'px crop_args) list" where
  "crop_calls [] = []"
| "crop_calls (CropCall c a # es) = (c, a) # crop_calls es"
| "crop_calls (_ # es) = crop_calls es"

text \<open>
  The arguments of a crop as the node passes them: \<^verbatim>\<open>vy_ratio\<close> in the fourth place
  and \<^verbatim>\<open>vx_ratio\<close> in the fifth.
\<close>

definition swapped_ratio_args :: "'px cropper_inputs \<Rightarrow> 'px crop_args \<Rightarrow> bool" where
  "swapped_ratio_args inp a \<longleftrightarrow>
     arg_dsize a = c_dsize inp \<and> arg_scale a = c_scale inp \<and>
     arg_vx_ratio a = c_vy_ratio inp \<and> arg_vy_ratio a = c_vx_ratio inp \<and>
     arg_face_index a = c_face_index inp \<and> arg_rotate a = c_rotate inp"

section \<open>KeypointScaler\<close>

subsection \<open>Dictionaries as objects in a store\<close>

text \<open>
  \<^verbatim>\<open>KeypointScaler.process\<close> assigns into a dictionary that its caller handed in, so
  dictionaries are objects in a store and a value refers to one by its address. Arrays
  are values here: the source takes a \<^verbatim>\<open>.copy()\<close> and builds every later array
  fresh, no array is updated in place.
\<close>

type_synonym addr = nat

datatype pyval =
    PyRef addr
  | PyArray landmarks
  | PyNone

type_synonym pydict = "string \<rightharpoonup> pyval"

type_synonym heap = "addr \<rightharpoonup> pydict"

text \<open>
  \<^verbatim>\<open>v[k]\<close> for a string key \<open>k\<close>: KeyError on a dictionary without the key,
  IndexError on an array (numpy refuses a string index), TypeError on \<^verbatim>\<open>None\<close>.
  A reference to no object does not occur in Python; the model answers TypeError.
\<close>

definition getitem :: "heap \<Rightarrow> pyval \<Rightarrow> string \<Rightarrow> py_error + pyval" where
  "getitem h v k =
     (case v of
        PyRef a \<Rightarrow>
          (case h a of
             None \<Rightarrow> Inl TypeError
           | Some d \<Rightarrow> (case d k of None \<Rightarrow> Inl (KeyError k) | Some x \<Rightarrow> Inr x))
      | PyArray _ \<Rightarrow> Inl IndexError
      | PyNone \<Rightarrow> Inl TypeError)"

text \<open>\<^verbatim>\<open>v[k] = x\<close>: the dictionary object at the address of \<open>v\<close> is updated in place.\<close>

definition setitem :: "heap \<Rightarrow> pyval \<Rightarrow> string \<Rightarrow> pyval \<Rightarrow> py_error + heap" where
  "setitem h v k x =
     (case v of
        PyRef a \<Rightarrow>
          (case h a of
             None \<Rightarrow> Inl TypeError
           | Some d \<Rightarrow> Inr (h(a \<mapsto> d(k \<mapsto> x))))
      | PyArray _ \<Rightarrow> Inl IndexError
      | PyNone \<Rightarrow> Inl TypeError)"

text \<open>What a caller reads as \<^verbatim>\<open>crop_info['crop_info']['lmk_crop']\<close>.\<close>

definition lmk_crop_of :: "heap \<Rightarrow> pyval \<Rightarrow> py_error + pyval" where
  "lmk_crop_of h crop_info =
     (case getitem h crop_info ''crop_info'' of
        Inl e \<Rightarrow> Inl e
      | Inr inner \<Rightarrow> getitem h inner ''lmk_crop'')"

subsection \<open>The numpy operations of lines 498--507\<close>

text \<open>
  \<^verbatim>\<open>keypoints.mean(axis=0)\<close>: the column means. On an empty array numpy answers
  \<^verbatim>\<open>nan\<close> with a warning and does not raise; the model's \<open>0 / 0 = 0\<close> stands
  for it, and no row of the result depends on it.
\<close>

definition mean_axis0 :: "landmarks \<Rightarrow> real \<times> real" where
  "mean_axis0 kps =
     (sum_list (map fst kps) / real (length kps), sum_list (map snd kps) / real (length kps))"

text \<open>Broadcasting a row over an \<open>N \<times> 2\<close> array, and a scalar over all entries.\<close>

definition sub_row :: "landmarks \<Rightarrow> real \<times> real \<Rightarrow> landmarks" where
  "sub_row kps c = map (\<lambda>p. (fst p - fst c, snd p - snd c)) kps"

definition add_row :: "landmarks \<Rightarrow> real \<times> real \<Rightarrow> landmarks" where
  "add_row kps c = map (\<lambda>p. (fst p + fst c, snd p + snd c)) kps"

definition mul_scalar :: "landmarks \<Rightarrow> real \<Rightarrow> landmarks" where
  "mul_scalar kps s = map (\<lambda>p. (fst p * s, snd p * s)) kps"

text \<open>Lines 498--507: centroid, translation to the origin, scaling, translation back, offset.\<close>

definition final_keypoints :: "landmarks \<Rightarrow> int \<Rightarrow> int \<Rightarrow> real \<Rightarrow> landmarks" where
  "final_keypoints keypoints offset_x offset_y scale =
     (let centroid = mean_axis0 keypoints;
          translated_keypoints = sub_row keypoints centroid;
          scaled_keypoints = mul_scalar translated_keypoints scale
      in add_row (add_row scaled_keypoints centroid) (real_of_int offset_x, real_of_int offset_y))"

subsection \<open>The keypoint image\<close>

text \<open>
  Python's \<^verbatim>\<open>int(x)\<close> on a float truncates towards zero.
\<close>

definition py_int :: "real \<Rightarrow> int" where
  "py_int x = (if 0 \<le> x then \<lfloor>x\<rfloor> else \<lceil>x\<rceil>)"

text \<open>
  The image tensor is the black \<open>512 \<times> 512\<close> canvas with one circle of radius 2 for
  every landmark inside the canvas: it is represented by its size and the centres of
  the circles, in drawing order.
\<close>

record keypoints_image =
  img_width :: nat
  img_height :: nat
  circles :: "(int \<times> int) list"

definition draw_keypoints :: "nat \<Rightarrow> nat \<Rightarrow> landmarks \<Rightarrow> keypoints_image" where
  "draw_keypoints w h kps =
     \<lparr> img_width = w, img_height = h,
       circles = map (\<lambda>p. (py_int (fst p), py_int (snd p)))
                  (filter (\<lambda>p. 0 \<le> fst p \<and> fst p < real w \<and> 0 \<le> snd p \<and> snd p < real h) kps) \<rparr>"

subsection \<open>\<^verbatim>\<open>KeypointScaler.process\<close> (lines 492--523)\<close>

definition KeypointScaler_process ::
  "heap \<Rightarrow> pyval \<Rightarrow> int \<Rightarrow> int \<Rightarrow> real \<Rightarrow> heap \<times> (py_error + pyval \<times> keypoints_image)" where
  "KeypointScaler_process h crop_info offset_x offset_y scale =
     (case getitem h crop_info ''crop_info'' of
        Inl e \<Rightarrow> (h, Inl e)
      | Inr inner \<Rightarrow>
          (case getitem h inner ''lmk_crop'' of
             Inl e \<Rightarrow> (h, Inl e)
           | Inr (PyArray keypoints) \<Rightarrow>
               (let final = final_keypoints keypoints offset_x offset_y scale
                in (case setitem h inner ''lmk_crop'' (PyArray final) of
                      Inl e \<Rightarrow> (h, Inl e)
                    | Inr h' \<Rightarrow> (h', Inr (crop_info, draw_keypoints 512 512 final))))
           | Inr _ \<Rightarrow> (h, Inl (AttributeError ''copy''))))"

subsection \<open>The transformation as the specification words it\<close>

definition centroid :: "landmarks \<Rightarrow> real \<times> real" where
  "centroid kps =
     ((\<Sum>p\<leftarrow>kps. fst p) / real (length kps), (\<Sum>p\<leftarrow>kps. snd p) / real (length kps))"

definition scaled_about_centroid :: "landmarks \<Rightarrow> real \<Rightarrow> int \<Rightarrow> int \<Rightarrow> landmarks" where
  "scaled_about_centroid kps scale offset_x offset_y =
     map (\<lambda>p. ((fst p - fst (centroid kps)) * scale + fst (centroid kps) + real_of_int offset_x,
              (snd p - snd (centroid kps)) * scale + snd (centroid kps) + real_of_int offset_y)) kps"

section \<open>Example inputs\<close>

text \<open>
  Pixel data is a string that names the frame and the operations applied to it.
\<close>

definition example_ops :: "string tensor_ops" where
  "example_ops =
     \<lparr> mul255_byte = (\<lambda>p. p @ ''.byte''), div255_float = (\<lambda>p. p @ ''.float''),
       channels_first = (\<lambda>p. p @ ''.chw''), lanczos = (\<lambda>w h p. p @ ''.lanczos''),
       half = (\<lambda>p. p @ ''.half'') \<rparr>"

definition example_frame :: "string \<Rightarrow> string frame" where
  "example_frame p = \<lparr> height = 4, width = 6, layout = HWC, dtype = Float32, pixels = p \<rparr>"

definition example_pipeline :: "(string, unit, unit, unit) pipeline_host" where
  "example_pipeline =
     \<lparr> imread_mask_template = Some [[[255, 255, 255]]],
       execute = (\<lambda>cfg source_np driving crop_info mismatch_method. (cfg, Inr ())),
       output_tensors = (\<lambda>outs. Inr ()) \<rparr>"

definition example_inputs :: "(string, unit) process_inputs" where
  "example_inputs =
     \<lparr> p_source_image = [example_frame ''s0''],
       p_driving_images = [example_frame ''d0'', example_frame ''d1''],
       p_crop_info = (),
       p_lip_zero = True, p_lip_zero_threshold = 0.03,
       p_eye_retargeting = False, p_lip_retargeting = False,
       p_stitching = True, p_relative = True,
       p_eyes_retargeting_multiplier = 1, p_lip_retargeting_multiplier = 1,
       p_mismatch_method = ''constant'', p_mask = None \<rparr>"

definition example_cfg_at_execute :: inference_config where
  "example_cfg_at_execute =
     InferenceConfig_defaults\<lparr> eyes_retargeting_multiplier := Some 1,
       lip_retargeting_multiplier := Some 1, mask_crop := Some [[[255, 255, 255]]] \<rparr>"

definition example_source_np :: "string frame list" where
  "example_source_np = [\<lparr> height = 4, width = 6, layout = HWC, dtype = UInt8, pixels = ''s0.byte'' \<rparr>]"

definition example_driving_256 :: "string frame list" where
  "example_driving_256 =
     [\<lparr> height = 256, width = 256, layout = CHW, dtype = Float16, pixels = ''d0.chw.lanczos.half'' \<rparr>,
      \<lparr> height = 256, width = 256, layout = CHW, dtype = Float16, pixels = ''d1.chw.lanczos.half'' \<rparr>]"

definition example_comfy_host :: "unit comfy_host" where
  "example_comfy_host =
     \<lparr> get_torch_device = TorchDevice ''cuda:0'', is_device_mps = Inr False,
       should_use_fp16 = Inr True, load_networks = Inr () \<rparr>"

definition example_cropper_host :: "(string, string) cropper_host" where
  "example_cropper_host =
     \<lparr> new_Cropper = (\<lambda>cfg. Inr (''Cropper on '' @ onnx_device cfg)),
       crop_single_image =
         (\<lambda>c a. Inr \<lparr> img_crop_256x256 = (arg_image a)\<lparr> height := 256, width := 256 \<rparr>,
                        lmk_crop = [(1, 2)] \<rparr>) \<rparr>"

definition example_cropper_inputs :: "string cropper_inputs" where
  "example_cropper_inputs =
     \<lparr> c_source_image = [example_frame ''s0''], c_dsize = 512, c_scale = 2.3,
       c_vx_ratio = 0, c_vy_ratio = - 0.125, c_face_index = 0, c_rotate = True,
       c_keep_model_loaded = True, c_onnx_device = ''CPU'',
       c_opt_driving_images = Some [example_frame ''d0''] \<rparr>"

definition example_cropper_node :: "string cropper_node" where
  "example_cropper_node =
     \<lparr> cropper = Object ''Cropper on CPU'',
       current_config = Some \<lparr> keep_model_loaded = True, onnx_device = ''CPU'' \<rparr> \<rparr>"

definition example_crop_events :: "(string, string) cropper_event list" where
  "example_crop_events =
     [CropCall ''Cropper on CPU''
        \<lparr> arg_image = \<lparr> height = 4, width = 6, layout = HWC, dtype = UInt8, pixels = ''s0.byte'' \<rparr>,
          arg_dsize = 512, arg_scale = 23 / 10, arg_vx_ratio = - (1 / 8), arg_vy_ratio = 0,
          arg_face_index = 0, arg_rotate = True \<rparr>,
      CropCall ''Cropper on CPU''
        \<lparr> arg_image = \<lparr> height = 4, width = 6, layout = HWC, dtype = UInt8, pixels = ''d0.byte'' \<rparr>,
          arg_dsize = 512, arg_scale = 23 / 10, arg_vx_ratio = - (1 / 8), arg_vy_ratio = 0,
          arg_face_index = 0, arg_rotate = True \<rparr>]"

definition example_cropper_output :: "string frame list \<times> string crop_info_dict" where
  "example_cropper_output =
     ([\<lparr> height = 256, width = 256, layout = HWC, dtype = Float32, pixels = ''s0.byte.float'' \<rparr>],
      \<lparr> dict_crop_info_list =
          [\<lparr> img_crop_256x256 =
               \<lparr> height = 256, width = 256, layout = HWC, dtype = UInt8, pixels = ''s0.byte'' \<rparr>,
             lmk_crop = [(1, 2)] \<rparr>],
        dict_driving_landmark_list = Some [[(1, 2)]] \<rparr>)"

text \<open>
  A call whose driving batch is shorter than its source batch, the node such a call
  leaves behind, and a call that asks for another device.
\<close>

definition example_short_driving_inputs :: "string cropper_inputs" where
  "example_short_driving_inputs =
     example_cropper_inputs
       \<lparr> c_source_image := [example_frame ''s0'', example_frame ''s1''],
         c_keep_model_loaded := False \<rparr>"

definition example_unreleased_node :: "string cropper_node" where
  "example_unreleased_node =
     \<lparr> cropper = Object ''Cropper on CPU'',
       current_config = Some \<lparr> keep_model_loaded = False, onnx_device = ''CPU'' \<rparr> \<rparr>"

definition example_cuda_inputs :: "string cropper_inputs" where
  "example_cuda_inputs = example_cropper_inputs\<lparr> c_onnx_device := ''CUDA'' \<rparr>"

section \<open>Properties of the loader\<close>

text \<open>
  C8. Whenever \<^verbatim>\<open>loadmodel\<close> returns a pipeline, its \<open>flag_use_half_precision\<close> is
  true if and only if the precision option is the string \<^verbatim>\<open>fp16\<close>; when the option is
  \<^verbatim>\<open>auto\<close> and the autodetection resolves to \<^verbatim>\<open>fp16\<close>, the flag is false.
\<close>

theorem loadmodel_half_precision_flag:
  assumes "loadmodel C precision = (evs, Inr pipe)"
  shows "flag_use_half_precision (pipeline_cfg pipe) = (precision = ''fp16'') \<and>
         (precision = ''auto'' \<and> snd (resolve_dtype C precision) = Inr ''fp16'' \<longrightarrow>
            \<not> flag_use_half_precision (pipeline_cfg pipe))"
  using assms
  by (auto simp: loadmodel_def Let_def split: prod.splits sum.splits if_splits)

theorem loadmodel_half_precision_flag_witness:
  "loadmodel example_comfy_host ''auto'' =
     ([LoadEmptyCache, Print ''LivePortrait using fp16''],
      Inr \<lparr> pipeline_networks = (),
            pipeline_cfg = InferenceConfig_defaults
              \<lparr> device_id := TorchDevice ''cuda:0'', flag_use_half_precision := False \<rparr> \<rparr>) \<and>
   snd (resolve_dtype example_comfy_host ''auto'') = Inr ''fp16'' \<and>
   \<not> flag_use_half_precision
        (pipeline_cfg \<lparr> pipeline_networks = (),
            pipeline_cfg = InferenceConfig_defaults
              \<lparr> device_id := TorchDevice ''cuda:0'', flag_use_half_precision := False \<rparr> \<rparr>) \<and>
   (\<exists>evs pipe. loadmodel example_comfy_host ''fp16'' = (evs, Inr pipe) \<and>
      flag_use_half_precision (pipeline_cfg pipe))"
proof -
  have run: "loadmodel example_comfy_host ''auto'' =
     ([LoadEmptyCache, Print ''LivePortrait using fp16''],
      Inr \<lparr> pipeline_networks = (),
            pipeline_cfg = InferenceConfig_defaults
              \<lparr> device_id := TorchDevice ''cuda:0'', flag_use_half_precision := False \<rparr> \<rparr>)"
    by (simp add: loadmodel_def resolve_dtype_def example_comfy_host_def)
  have res: "snd (resolve_dtype example_comfy_host ''auto'') = Inr ''fp16''"
    by (simp add: resolve_dtype_def example_comfy_host_def)
  obtain evs pipe where run16: "loadmodel example_comfy_host ''fp16'' = (evs, Inr pipe)"
    by (simp add: loadmodel_def resolve_dtype_def example_comfy_host_def)
  from loadmodel_half_precision_flag [OF run] res
    loadmodel_half_precision_flag [OF run16] run run16
  show ?thesis by simp
qed

section \<open>Properties of LivePortraitProcess\<close>

lemma cfg_writes_append: "cfg_writes (xs @ ys) = cfg_writes xs @ cfg_writes ys"
  by (induction xs rule: cfg_writes.induct) simp_all

lemma warnings_append: "warnings (xs @ ys) = warnings xs @ warnings ys"
  by (induction xs rule: warnings.induct) simp_all

lemma set_mask_crop_Inr:
  assumes "set_mask_crop P m cfg = (cfg2, ev3, Inr u)"
  shows "cfg_writes ev3 = [''mask_crop'']"
    and "\<And>c s d ci mm. ExecuteCall c s d ci mm \<notin> set ev3"
    and "cfg2 = cfg\<lparr> mask_crop := (case m of None \<Rightarrow> imread_mask_template P
                          | Some t \<Rightarrow> (case crop_mask_of t of Inl e \<Rightarrow> None | Inr i \<Rightarrow> Some i)) \<rparr>"
  using assms by (auto simp: set_mask_crop_def split: option.splits sum.splits)

lemma set_mask_crop_Inl:
  assumes "set_mask_crop P m cfg = (cfg2, ev3, Inl e)"
  shows "ev3 = []" "cfg2 = cfg"
  using assms by (auto simp: set_mask_crop_def split: option.splits sum.splits)

lemma warnings_set_mask_crop:
  "set_mask_crop P m cfg = (cfg2, ev3, r) \<Longrightarrow> warnings ev3 = []"
  by (auto simp: set_mask_crop_def split: option.splits sum.splits)

lemma LivePortraitProcess_process_cases:
  fixes T P cfg0 inp
  defines "cfg1 \<equiv> fst (write_retargeting_cfg inp cfg0)"
    and "ev12 \<equiv> snd (write_retargeting_cfg inp cfg0) @ lip_zero_warning inp"
    and "source_np \<equiv> to_uint8 T (p_source_image inp)"
  obtains
    (short) "length (p_driving_images inp) < length (p_source_image inp)"
      "LivePortraitProcess_process T P cfg0 inp =
         (cfg0, [], Inl (ValueError ''The number of driving images should be larger than the number of source images.''))"
  | (no_mask_frame) e where "\<not> length (p_driving_images inp) < length (p_source_image inp)"
      "set_mask_crop P (p_mask inp) cfg1 = (cfg1, [], Inl e)"
      "LivePortraitProcess_process T P cfg0 inp = (cfg1, ev12, Inl e)"
  | (no_upscale) cfg2 ev3 e where "\<not> length (p_driving_images inp) < length (p_source_image inp)"
      "set_mask_crop P (p_mask inp) cfg1 = (cfg2, ev3, Inr ())"
      "driving_images_256_of T cfg2 (p_driving_images inp) = Inl e"
      "LivePortraitProcess_process T P cfg0 inp = (cfg2, ev12 @ ev3, Inl e)"
  | (executes) cfg2 ev3 driving_images_256 where
      "\<not> length (p_driving_images inp) < length (p_source_image inp)"
      "set_mask_crop P (p_mask inp) cfg1 = (cfg2, ev3, Inr ())"
      "driving_images_256_of T cfg2 (p_driving_images inp) = Inr driving_images_256"
      "LivePortraitProcess_process T P cfg0 inp =
         (fst (execute P cfg2 source_np driving_images_256 (p_crop_info inp) (p_mismatch_method inp)),
          ev12 @ ev3 @
            [ExecuteCall cfg2 source_np driving_images_256 (p_crop_info inp) (p_mismatch_method inp)],
          case snd (execute P cfg2 source_np driving_images_256 (p_crop_info inp) (p_mismatch_method inp)) of
            Inl e \<Rightarrow> Inl e
          | Inr outs \<Rightarrow> output_tensors P outs)"
proof (cases "length (p_driving_images inp) < length (p_source_image inp)")
  case True
  then show thesis
    by (intro short) (simp_all add: LivePortraitProcess_process_def)
next
  case len: False
  obtain cfg2 ev3 r where m: "set_mask_crop P (p_mask inp) cfg1 = (cfg2, ev3, r)"
    by (cases "set_mask_crop P (p_mask inp) cfg1") auto
  show thesis
  proof (cases r)
    case (Inl e)
    with m have "ev3 = []" "cfg2 = cfg1"
      by (auto dest: set_mask_crop_Inl)
    with len m Inl show thesis
      by (intro no_mask_frame [of e])
        (simp_all add: LivePortraitProcess_process_def cfg1_def ev12_def Let_def case_prod_beta)
  next
    case (Inr u)
    show thesis
    proof (cases "driving_images_256_of T cfg2 (p_driving_images inp)")
      case (Inl e)
      with len m Inr show thesis
        by (intro no_upscale [of cfg2 ev3 e])
          (simp_all add: LivePortraitProcess_process_def cfg1_def ev12_def Let_def case_prod_beta)
    next
      case d: (Inr driving_images_256)
      with len m Inr show thesis
        by (intro executes [of cfg2 ev3 driving_images_256])
          (simp_all add: LivePortraitProcess_process_def cfg1_def ev12_def source_np_def Let_def
            case_prod_beta)
    qed
  qed
qed

lemma cfg_writes_before_mask:
  "cfg_writes (snd (write_retargeting_cfg inp cfg0)) = butlast retargeting_fields"
  "cfg_writes (lip_zero_warning inp) = []"
  by (simp_all add: write_retargeting_cfg_def lip_zero_warning_def retargeting_fields_def)



lemma crop_mask_of_Cons:
  "crop_mask_of (m0 # ms) = Inr (map (map (\<lambda>x. replicate 3 (astype_uint8 (x * 255)))) m0)"
  by (simp add: crop_mask_of_def repeat_axis2_def atleast_3d_def comp_def numeral_3_eq_3)



lemma LivePortraitProcess_process_warnings:
  assumes "\<not> length (p_driving_images inp) < length (p_source_image inp)"
  shows "warnings (fst (snd (LivePortraitProcess_process T P cfg0 inp))) =
           (if p_lip_zero inp \<and> (p_lip_retargeting inp \<or> p_eye_retargeting inp)
            then [''Warning: lip_zero only has an effect with lip or eye retargeting'']
            else [])"
proof -
  have w: "warnings (snd (write_retargeting_cfg inp cfg0) @ lip_zero_warning inp) =
      (if p_lip_zero inp \<and> (p_lip_retargeting inp \<or> p_eye_retargeting inp)
       then [''Warning: lip_zero only has an effect with lip or eye retargeting'']
       else [])"
    by (simp add: write_retargeting_cfg_def lip_zero_warning_def)
  show ?thesis
  proof (cases rule: LivePortraitProcess_process_cases [where T = T and P = P and ?cfg0.0 = cfg0 and inp = inp])
    case short
    with assms show ?thesis by simp
  next
    case (no_mask_frame e)
    with w show ?thesis by simp
  next
    case (no_upscale cfg2 ev3 e)
    with w warnings_set_mask_crop [OF no_upscale(2)] show ?thesis
      by (simp add: warnings_append)
  next
    case (executes cfg2 ev3 driving_images_256)
    with w warnings_set_mask_crop [OF executes(2)] show ?thesis
      by (simp add: warnings_append)
  qed
qed

lemma example_run:
  "LivePortraitProcess_process example_ops example_pipeline InferenceConfig_defaults example_inputs =
     (example_cfg_at_execute,
      [CfgWrite ''flag_eye_retargeting'', CfgWrite ''eyes_retargeting_multiplier'',
       CfgWrite ''flag_lip_retargeting'', CfgWrite ''lip_retargeting_multiplier'',
       CfgWrite ''flag_stitching'', CfgWrite ''flag_relative'',
       CfgWrite ''flag_lip_zero'', CfgWrite ''lip_zero_threshold'',
       LogInfo ''Using default mask template'', CfgWrite ''mask_crop''] @
      [ExecuteCall example_cfg_at_execute example_source_np example_driving_256 () ''constant''],
      Inr ())"
  by (simp add: LivePortraitProcess_process_def example_inputs_def example_ops_def
      example_pipeline_def example_frame_def InferenceConfig_defaults_def
      write_retargeting_cfg_def lip_zero_warning_def set_mask_crop_def driving_images_256_of_def
      common_upscale_lanczos_def permute_0312_def to_float16_def to_uint8_def
      example_cfg_at_execute_def example_source_np_def example_driving_256_def)

lemma example_cfg_written:
  "(fst (write_retargeting_cfg example_inputs InferenceConfig_defaults))
     \<lparr> mask_crop := Some [[[255, 255, 255]]] \<rparr> = example_cfg_at_execute"
  "\<And>v. (fst (write_retargeting_cfg (example_inputs\<lparr> p_mask := v \<rparr>) InferenceConfig_defaults)) =
     (fst (write_retargeting_cfg example_inputs InferenceConfig_defaults))"
  by (simp_all add: write_retargeting_cfg_def example_inputs_def InferenceConfig_defaults_def
      example_cfg_at_execute_def)

text \<open>
  C1. When there are fewer driving frames than source frames, \<^verbatim>\<open>process\<close> fails with
  the length error, returns no output, has done nothing before (no event: no attribute
  written, no call of the pipeline), and leaves the configuration as it was.
\<close>

theorem process_length_error:
  assumes "length (p_driving_images inp) < length (p_source_image inp)"
  shows "LivePortraitProcess_process T P cfg0 inp =
           (cfg0, [],
            Inl (ValueError ''The number of driving images should be larger than the number of source images.''))"
  using assms by (simp add: LivePortraitProcess_process_def)

theorem process_length_error_witness:
  "LivePortraitProcess_process example_ops example_pipeline InferenceConfig_defaults
     (example_inputs\<lparr> p_source_image := replicate 5 (example_frame ''s''),
                      p_driving_images := replicate 2 (example_frame ''d'') \<rparr>) =
     (InferenceConfig_defaults, [],
      Inl (ValueError ''The number of driving images should be larger than the number of source images.''))"
  by (rule process_length_error) simp

text \<open>
  C2. The warning about \<^verbatim>\<open>lip_zero\<close> is logged exactly when \<^verbatim>\<open>lip_zero\<close> is set
  together with lip or eye retargeting: with \<^verbatim>\<open>lip_zero\<close> alone the run reaches the
  pipeline and logs no warning, and with \<^verbatim>\<open>lip_zero\<close> and either retargeting flag the
  warning is logged. This is the converse of the condition the warning's own text
  calls for.
\<close>

theorem process_lip_zero_warning_inverted:
  "p_lip_zero example_inputs \<and> \<not> p_lip_retargeting example_inputs \<and>
   \<not> p_eye_retargeting example_inputs \<and>
   snd (snd (LivePortraitProcess_process example_ops example_pipeline InferenceConfig_defaults
               example_inputs)) = Inr () \<and>
   warnings (fst (snd (LivePortraitProcess_process example_ops example_pipeline
                         InferenceConfig_defaults example_inputs))) = [] \<and>
   warnings (fst (snd (LivePortraitProcess_process example_ops example_pipeline
                         InferenceConfig_defaults (example_inputs\<lparr> p_lip_retargeting := True \<rparr>)))) =
     [''Warning: lip_zero only has an effect with lip or eye retargeting''] \<and>
   warnings (fst (snd (LivePortraitProcess_process example_ops example_pipeline
                         InferenceConfig_defaults (example_inputs\<lparr> p_eye_retargeting := True \<rparr>)))) =
     [''Warning: lip_zero only has an effect with lip or eye retargeting'']"
proof -
  have "\<not> length (p_driving_images (example_inputs\<lparr> p_lip_retargeting := True \<rparr>))
          < length (p_source_image (example_inputs\<lparr> p_lip_retargeting := True \<rparr>))"
    "\<not> length (p_driving_images (example_inputs\<lparr> p_eye_retargeting := True \<rparr>))
          < length (p_source_image (example_inputs\<lparr> p_eye_retargeting := True \<rparr>))"
    by (simp_all add: example_inputs_def)
  then show ?thesis
    by (simp add: LivePortraitProcess_process_warnings example_run) (simp add: example_inputs_def)
qed



text \<open>
  C5. In every call that passes the length check, the configuration \<open>c\<close> that
  \<^verbatim>\<open>process\<close> has built when lines 315--322 are done is the initial one with the eight
  inputs written and \<open>mask_crop\<close> set: without a mask, to what reading the default mask
  template gave; with a mask whose first frame is \<open>m0\<close>, to the byte image that has, at
  every pixel of \<open>m0\<close>, the three channels \<open>astype_uint8 (x * 255)\<close>. This \<open>c\<close> is the
  state the call leaves when resampling raises (an empty driving batch), and otherwise
  it is the configuration on which \<^verbatim>\<open>pipeline.execute\<close> is applied, whose outcome is
  the outcome of the call.
\<close>

theorem process_mask_crop:
  assumes "\<not> length (p_driving_images inp) < length (p_source_image inp)"
  shows "(p_mask inp = None \<longrightarrow>
            (\<exists>c pre.
               c = (fst (write_retargeting_cfg inp cfg0))\<lparr> mask_crop := imread_mask_template P \<rparr> \<and>
               mask_crop c = imread_mask_template P \<and>
               cfg_writes pre = retargeting_fields \<and>
               (LivePortraitProcess_process T P cfg0 inp = (c, pre, Inl RuntimeError) \<or>
                (\<exists>s d.
                   LivePortraitProcess_process T P cfg0 inp =
                     (fst (execute P c s d (p_crop_info inp) (p_mismatch_method inp)),
                      pre @ [ExecuteCall c s d (p_crop_info inp) (p_mismatch_method inp)],
                      case snd (execute P c s d (p_crop_info inp) (p_mismatch_method inp)) of
                        Inl e \<Rightarrow> Inl e
                      | Inr outs \<Rightarrow> output_tensors P outs))))) \<and>
         (\<forall>m0 ms. p_mask inp = Some (m0 # ms) \<longrightarrow>
            (\<exists>c pre.
               c = (fst (write_retargeting_cfg inp cfg0))
                     \<lparr> mask_crop := Some (map (map (\<lambda>x. replicate 3 (astype_uint8 (x * 255)))) m0) \<rparr> \<and>
               mask_crop c = Some (map (map (\<lambda>x. replicate 3 (astype_uint8 (x * 255)))) m0) \<and>
               cfg_writes pre = retargeting_fields \<and>
               (LivePortraitProcess_process T P cfg0 inp = (c, pre, Inl RuntimeError) \<or>
                (\<exists>s d.
                   LivePortraitProcess_process T P cfg0 inp =
                     (fst (execute P c s d (p_crop_info inp) (p_mismatch_method inp)),
                      pre @ [ExecuteCall c s d (p_crop_info inp) (p_mismatch_method inp)],
                      case snd (execute P c s d (p_crop_info inp) (p_mismatch_method inp)) of
                        Inl e \<Rightarrow> Inl e
                      | Inr outs \<Rightarrow> output_tensors P outs)))))"
proof -
  let ?cfg1 = "fst (write_retargeting_cfg inp cfg0)"
  let ?ev12 = "snd (write_retargeting_cfg inp cfg0) @ lip_zero_warning inp"
  have *: "\<exists>c pre.
      c = ?cfg1\<lparr> mask_crop := v \<rparr> \<and> mask_crop c = v \<and> cfg_writes pre = retargeting_fields \<and>
      (LivePortraitProcess_process T P cfg0 inp = (c, pre, Inl RuntimeError) \<or>
       (\<exists>s d.
          LivePortraitProcess_process T P cfg0 inp =
            (fst (execute P c s d (p_crop_info inp) (p_mismatch_method inp)),
             pre @ [ExecuteCall c s d (p_crop_info inp) (p_mismatch_method inp)],
             case snd (execute P c s d (p_crop_info inp) (p_mismatch_method inp)) of
               Inl e \<Rightarrow> Inl e
             | Inr outs \<Rightarrow> output_tensors P outs)))"
    if m: "set_mask_crop P (p_mask inp) ?cfg1 = (?cfg1\<lparr> mask_crop := v \<rparr>, ev3, Inr ())" for v ev3
  proof -
    let ?c = "?cfg1\<lparr> mask_crop := v \<rparr>"
    have w: "cfg_writes (?ev12 @ ev3) = retargeting_fields"
      using set_mask_crop_Inr(1) [OF m]
      by (simp add: cfg_writes_append cfg_writes_before_mask retargeting_fields_def)
    show ?thesis
    proof (cases rule: LivePortraitProcess_process_cases [where T = T and P = P and ?cfg0.0 = cfg0 and inp = inp])
      case short
      with assms show ?thesis by simp
    next
      case (no_mask_frame e)
      with m show ?thesis by simp
    next
      case (no_upscale cfg2 ev3' e)
      from no_upscale(2) m have eq: "cfg2 = ?c" "ev3' = ev3" by simp_all
      from no_upscale(3) have "e = RuntimeError"
        by (auto simp: driving_images_256_of_def common_upscale_lanczos_def
            split: if_splits sum.splits)
      with no_upscale(4) eq have "LivePortraitProcess_process T P cfg0 inp =
          (?c, ?ev12 @ ev3, Inl RuntimeError)" by simp
      with w show ?thesis by (intro exI [of _ ?c] exI [of _ "?ev12 @ ev3"]) simp
    next
      case (executes cfg2 ev3' driving_images_256)
      from executes(2) m have eq: "cfg2 = ?c" "ev3' = ev3" by simp_all
      from executes(4) [unfolded eq] have "LivePortraitProcess_process T P cfg0 inp =
          (fst (execute P ?c (to_uint8 T (p_source_image inp)) driving_images_256
                 (p_crop_info inp) (p_mismatch_method inp)),
           (?ev12 @ ev3) @ [ExecuteCall ?c (to_uint8 T (p_source_image inp)) driving_images_256
                 (p_crop_info inp) (p_mismatch_method inp)],
           case snd (execute P ?c (to_uint8 T (p_source_image inp)) driving_images_256
                 (p_crop_info inp) (p_mismatch_method inp)) of
             Inl e \<Rightarrow> Inl e
           | Inr outs \<Rightarrow> output_tensors P outs)"
        by simp
      with w show ?thesis
        by (intro exI [of _ ?c] exI [of _ "?ev12 @ ev3"] conjI disjI2
            exI [of _ "to_uint8 T (p_source_image inp)"] exI [of _ driving_images_256])
          simp_all
    qed
  qed
  show ?thesis
  proof (intro conjI allI impI)
    assume "p_mask inp = None"
    then have "set_mask_crop P (p_mask inp) ?cfg1 =
        (?cfg1\<lparr> mask_crop := imread_mask_template P \<rparr>,
         [LogInfo ''Using default mask template'', CfgWrite ''mask_crop''], Inr ())"
      by (simp add: set_mask_crop_def)
    then show "\<exists>c pre.
               c = ?cfg1\<lparr> mask_crop := imread_mask_template P \<rparr> \<and>
               mask_crop c = imread_mask_template P \<and>
               cfg_writes pre = retargeting_fields \<and>
               (LivePortraitProcess_process T P cfg0 inp = (c, pre, Inl RuntimeError) \<or>
                (\<exists>s d.
                   LivePortraitProcess_process T P cfg0 inp =
                     (fst (execute P c s d (p_crop_info inp) (p_mismatch_method inp)),
                      pre @ [ExecuteCall c s d (p_crop_info inp) (p_mismatch_method inp)],
                      case snd (execute P c s d (p_crop_info inp) (p_mismatch_method inp)) of
                        Inl e \<Rightarrow> Inl e
                      | Inr outs \<Rightarrow> output_tensors P outs)))"
      by (rule *)
  next
    fix m0 ms
    assume "p_mask inp = Some (m0 # ms)"
    then have "set_mask_crop P (p_mask inp) ?cfg1 =
        (?cfg1\<lparr> mask_crop := Some (map (map (\<lambda>x. replicate 3 (astype_uint8 (x * 255)))) m0) \<rparr>,
         [CfgWrite ''mask_crop''], Inr ())"
      by (simp add: set_mask_crop_def crop_mask_of_Cons)
    then show "\<exists>c pre.
               c = ?cfg1\<lparr> mask_crop := Some (map (map (\<lambda>x. replicate 3 (astype_uint8 (x * 255)))) m0) \<rparr> \<and>
               mask_crop c = Some (map (map (\<lambda>x. replicate 3 (astype_uint8 (x * 255)))) m0) \<and>
               cfg_writes pre = retargeting_fields \<and>
               (LivePortraitProcess_process T P cfg0 inp = (c, pre, Inl RuntimeError) \<or>
                (\<exists>s d.
                   LivePortraitProcess_process T P cfg0 inp =
                     (fst (execute P c s d (p_crop_info inp) (p_mismatch_method inp)),
                      pre @ [ExecuteCall c s d (p_crop_info inp) (p_mismatch_method inp)],
                      case snd (execute P c s d (p_crop_info inp) (p_mismatch_method inp)) of
                        Inl e \<Rightarrow> Inl e
                      | Inr outs \<Rightarrow> output_tensors P outs)))"
      by (rule *)
  qed
qed

theorem process_mask_crop_witness:
  "\<not> length (p_driving_images example_inputs) < length (p_source_image example_inputs) \<and>
   p_mask example_inputs = None \<and>
   imread_mask_template example_pipeline = Some [[[255, 255, 255]]] \<and>
   mask_crop example_cfg_at_execute = Some [[[255, 255, 255]]] \<and>
   (\<exists>pre.
      cfg_writes pre = retargeting_fields \<and>
      (LivePortraitProcess_process example_ops example_pipeline InferenceConfig_defaults example_inputs =
         (example_cfg_at_execute, pre, Inl RuntimeError) \<or>
       (\<exists>s d.
          LivePortraitProcess_process example_ops example_pipeline InferenceConfig_defaults
            example_inputs =
            (fst (execute example_pipeline example_cfg_at_execute s d () ''constant''),
             pre @ [ExecuteCall example_cfg_at_execute s d () ''constant''],
             case snd (execute example_pipeline example_cfg_at_execute s d () ''constant'') of
               Inl e \<Rightarrow> Inl e
             | Inr outs \<Rightarrow> output_tensors example_pipeline outs)))) \<and>
   (\<exists>pre.
      cfg_writes pre = retargeting_fields \<and>
      (LivePortraitProcess_process example_ops example_pipeline InferenceConfig_defaults
         (example_inputs\<lparr> p_mask := Some [[[0, 1 / 2], [1, 1 / 4]], [[1, 1], [1, 1]]] \<rparr>) =
         (example_cfg_at_execute
            \<lparr> mask_crop := Some [[[0, 0, 0], [127, 127, 127]], [[255, 255, 255], [63, 63, 63]]] \<rparr>,
          pre, Inl RuntimeError) \<or>
       (\<exists>s d.
          LivePortraitProcess_process example_ops example_pipeline InferenceConfig_defaults
            (example_inputs\<lparr> p_mask := Some [[[0, 1 / 2], [1, 1 / 4]], [[1, 1], [1, 1]]] \<rparr>) =
            (fst (execute example_pipeline
                    (example_cfg_at_execute
                       \<lparr> mask_crop := Some [[[0, 0, 0], [127, 127, 127]], [[255, 255, 255], [63, 63, 63]]] \<rparr>)
                    s d () ''constant''),
             pre @ [ExecuteCall
                      (example_cfg_at_execute
                         \<lparr> mask_crop := Some [[[0, 0, 0], [127, 127, 127]], [[255, 255, 255], [63, 63, 63]]] \<rparr>)
                      s d () ''constant''],
             case snd (execute example_pipeline
                    (example_cfg_at_execute
                       \<lparr> mask_crop := Some [[[0, 0, 0], [127, 127, 127]], [[255, 255, 255], [63, 63, 63]]] \<rparr>)
                    s d () ''constant'') of
               Inl e \<Rightarrow> Inl e
             | Inr outs \<Rightarrow> output_tensors example_pipeline outs))))"
proof -
  let ?inp = "example_inputs\<lparr> p_mask := Some [[[0, 1 / 2], [1, 1 / 4]], [[1, 1], [1, 1]]] \<rparr>"
  have h: "\<not> length (p_driving_images example_inputs) < length (p_source_image example_inputs)"
    "p_mask example_inputs = None"
    by (simp_all add: example_inputs_def)
  have h': "\<not> length (p_driving_images ?inp) < length (p_source_image ?inp)"
    "p_mask ?inp = Some ([[0, 1 / 2], [1, 1 / 4]] # [[[1, 1], [1, 1]]])"
    by (simp_all add: example_inputs_def)
  have v: "map (map (\<lambda>x. replicate 3 (astype_uint8 (x * 255)))) [[0, 1 / 2], [1, 1 / 4]] =
      [[[0, 0, 0], [127, 127, 127]], [[255, 255, 255], [63, 63, 63]]]"
    by (simp add: astype_uint8_def numeral_3_eq_3)
  have t: "imread_mask_template example_pipeline = Some [[[255, 255, 255]]]"
    "p_crop_info example_inputs = ()" "p_mismatch_method example_inputs = ''constant''"
    "p_crop_info ?inp = ()" "p_mismatch_method ?inp = ''constant''"
    by (simp_all add: example_pipeline_def example_inputs_def)
  have c: "(fst (write_retargeting_cfg example_inputs InferenceConfig_defaults))
       \<lparr> mask_crop := Some [[[255, 255, 255]]] \<rparr> = example_cfg_at_execute"
    by (rule example_cfg_written(1))
  have c': "(fst (write_retargeting_cfg ?inp InferenceConfig_defaults))
       \<lparr> mask_crop := Some [[[0, 0, 0], [127, 127, 127]], [[255, 255, 255], [63, 63, 63]]] \<rparr> =
     example_cfg_at_execute
       \<lparr> mask_crop := Some [[[0, 0, 0], [127, 127, 127]], [[255, 255, 255], [63, 63, 63]]] \<rparr>"
    by (simp add: example_cfg_written(2)) (simp add: example_cfg_written(1) [symmetric])
  have m: "mask_crop example_cfg_at_execute = Some [[[255, 255, 255]]]"
    by (simp add: example_cfg_at_execute_def)
  note a = process_mask_crop [OF h(1), of example_pipeline InferenceConfig_defaults example_ops,
      THEN conjunct1, rule_format, OF h(2), unfolded t c]
  note b = process_mask_crop [OF h'(1), of example_pipeline InferenceConfig_defaults example_ops,
      THEN conjunct2, rule_format, OF h'(2), unfolded v t c']
  from a have a': "\<exists>pre.
      cfg_writes pre = retargeting_fields \<and>
      (LivePortraitProcess_process example_ops example_pipeline InferenceConfig_defaults example_inputs =
         (example_cfg_at_execute, pre, Inl RuntimeError) \<or>
       (\<exists>s d.
          LivePortraitProcess_process example_ops example_pipeline InferenceConfig_defaults
            example_inputs =
            (fst (execute example_pipeline example_cfg_at_execute s d () ''constant''),
             pre @ [ExecuteCall example_cfg_at_execute s d () ''constant''],
             case snd (execute example_pipeline example_cfg_at_execute s d () ''constant'') of
               Inl e \<Rightarrow> Inl e
             | Inr outs \<Rightarrow> output_tensors example_pipeline outs)))"
    by blast
  from b have b': "\<exists>pre.
      cfg_writes pre = retargeting_fields \<and>
      (LivePortraitProcess_process example_ops example_pipeline InferenceConfig_defaults ?inp =
         (example_cfg_at_execute
            \<lparr> mask_crop := Some [[[0, 0, 0], [127, 127, 127]], [[255, 255, 255], [63, 63, 63]]] \<rparr>,
          pre, Inl RuntimeError) \<or>
       (\<exists>s d.
          LivePortraitProcess_process example_ops example_pipeline InferenceConfig_defaults ?inp =
            (fst (execute example_pipeline
                    (example_cfg_at_execute
                       \<lparr> mask_crop := Some [[[0, 0, 0], [127, 127, 127]], [[255, 255, 255], [63, 63, 63]]] \<rparr>)
                    s d () ''constant''),
             pre @ [ExecuteCall
                      (example_cfg_at_execute
                         \<lparr> mask_crop := Some [[[0, 0, 0], [127, 127, 127]], [[255, 255, 255], [63, 63, 63]]] \<rparr>)
                      s d () ''constant''],
             case snd (execute example_pipeline
                    (example_cfg_at_execute
                       \<lparr> mask_crop := Some [[[0, 0, 0], [127, 127, 127]], [[255, 255, 255], [63, 63, 63]]] \<rparr>)
                    s d () ''constant'') of
               Inl e \<Rightarrow> Inl e
             | Inr outs \<Rightarrow> output_tensors example_pipeline outs)))"
    by blast
  from h t(1) m a' b' show ?thesis
    by (intro conjI)
qed



section \<open>Properties of LivePortraitCropper\<close>

lemma new_croppers_append: "new_croppers (xs @ ys) = new_croppers xs @ new_croppers ys"
  by (induction xs rule: new_croppers.induct) simp_all

lemma crop_calls_append: "crop_calls (xs @ ys) = crop_calls xs @ crop_calls ys"
  by (induction xs rule: crop_calls.induct) simp_all

lemma swapped_positional:
  "swapped_ratio_args inp
     (positional_crop_args f (c_dsize inp) (c_scale inp) (c_vy_ratio inp) (c_vx_ratio inp)
        (c_face_index inp) (c_rotate inp))"
  by (simp add: swapped_ratio_args_def positional_crop_args_def)

lemma crop_loop_events:
  "new_croppers (fst (crop_loop H c inp src drv is acc)) = [] \<and>
   list_all (\<lambda>p. fst p = c \<and> swapped_ratio_args inp (snd p))
     (crop_calls (fst (crop_loop H c inp src drv is acc)))"
proof (induction "is" arbitrary: acc)
  case Nil
  show ?case by simp
next
  case (Cons i "is")
  obtain cil cimgs lmks where acc: "acc = (cil, cimgs, lmks)"
    by (cases acc) auto
  show ?case
    unfolding acc using Cons.IH
    by (cases drv)
      (simp_all add: Let_def case_prod_beta swapped_positional split: sum.splits)
qed

lemma crop_loop_images:
  assumes "crop_loop H c inp src drv is acc = (evs, Inr acc')"
  shows "map (\<lambda>p. arg_image (snd p)) (crop_calls evs) =
           (case drv of
              None \<Rightarrow> map (\<lambda>i. src ! i) is
            | Some d \<Rightarrow> concat (map (\<lambda>i. [src ! i, d ! i]) is))"
  using assms
proof (induction "is" arbitrary: acc evs)
  case Nil
  then show ?case by (simp split: option.splits)
next
  case (Cons i "is")
  obtain cil cimgs lmks where acc: "acc = (cil, cimgs, lmks)"
    by (cases acc) auto
  show ?case
  proof (cases drv)
    case None
    with Cons.prems acc Cons.IH show ?thesis
      by (auto simp: Let_def positional_crop_args_def split: sum.splits prod.splits)
  next
    case (Some d)
    with Cons.prems acc Cons.IH show ?thesis
      by (auto simp: Let_def positional_crop_args_def split: sum.splits prod.splits if_splits)
  qed
qed

lemma ensure_cropper_events:
  assumes "ensure_cropper H node cfg = (node1, ev1, r)"
  shows "crop_calls ev1 = []"
    and "new_croppers ev1 =
           (if cropper node = NoAttribute \<or> cropper node = IsNone \<or>
               (\<exists>cur. current_config node = Some cur \<and> cur \<noteq> cfg)
            then [cfg] else [])"
  using assms
  by (auto simp: ensure_cropper_def split: attribute.splits option.splits sum.splits if_splits)

lemma ensure_cropper_Inr:
  assumes "ensure_cropper H node cfg = (node1, ev1, Inr c)"
  shows "cropper node1 = Object c" and "current_config node1 = Some cfg"
    and "new_croppers ev1 = [] \<Longrightarrow> cropper node = Object c"
  using assms
  by (auto simp: ensure_cropper_def split: attribute.splits option.splits sum.splits if_splits)

lemma LivePortraitCropper_process_events:
  assumes "LivePortraitCropper_process T H node inp = (node', evs, r)"
  shows "new_croppers evs =
           (if cropper node = NoAttribute \<or> cropper node = IsNone \<or>
               (\<exists>cur. current_config node = Some cur \<and> cur \<noteq> cropper_init_config inp)
            then [cropper_init_config inp] else [])"
    and "list_all (\<lambda>p. swapped_ratio_args inp (snd p)) (crop_calls evs)"
proof -
  obtain node1 ev1 r1 where e: "ensure_cropper H node (cropper_init_config inp) = (node1, ev1, r1)"
    by (cases "ensure_cropper H node (cropper_init_config inp)") auto
  note ev = ensure_cropper_events [OF e]
  show "new_croppers evs =
           (if cropper node = NoAttribute \<or> cropper node = IsNone \<or>
               (\<exists>cur. current_config node = Some cur \<and> cur \<noteq> cropper_init_config inp)
            then [cropper_init_config inp] else [])"
  proof (cases r1)
    case (Inl x)
    with assms e ev(2) show ?thesis
      by (auto simp: LivePortraitCropper_process_def)
  next
    case (Inr c)
    let ?loop = "crop_loop H c inp (to_uint8 T (c_source_image inp))
                   (map_option (to_uint8 T) (c_opt_driving_images inp))
                   [0..<length (to_uint8 T (c_source_image inp))] ([], [], [])"
    from crop_loop_events [of H c inp] have l: "new_croppers (fst ?loop) = []" by blast
    from assms e Inr have "new_croppers evs = new_croppers ev1 @ new_croppers (fst ?loop)"
      by (auto simp: LivePortraitCropper_process_def Let_def new_croppers_append
          split: prod.splits sum.splits if_splits)
    with l ev(2) show ?thesis by simp
  qed
  show "list_all (\<lambda>p. swapped_ratio_args inp (snd p)) (crop_calls evs)"
  proof (cases r1)
    case (Inl x)
    with assms e ev(1) show ?thesis
      by (auto simp: LivePortraitCropper_process_def)
  next
    case (Inr c)
    let ?loop = "crop_loop H c inp (to_uint8 T (c_source_image inp))
                   (map_option (to_uint8 T) (c_opt_driving_images inp))
                   [0..<length (to_uint8 T (c_source_image inp))] ([], [], [])"
    from crop_loop_events [of H c inp] have
      l: "list_all (\<lambda>p. fst p = c \<and> swapped_ratio_args inp (snd p)) (crop_calls (fst ?loop))" by blast
    from assms e Inr have "crop_calls evs = crop_calls ev1 @ crop_calls (fst ?loop)"
      by (auto simp: LivePortraitCropper_process_def Let_def crop_calls_append
          split: prod.splits sum.splits if_splits)
    with l ev(1) show ?thesis by (auto simp: list_all_iff)
  qed
qed

lemma LivePortraitCropper_process_Inr:
  assumes "LivePortraitCropper_process T H node inp = (node', evs, Inr out)"
  obtains c where "current_config node' = Some (cropper_init_config inp)"
    "cropper node' = (if c_keep_model_loaded inp then Object c else IsNone)"
    "list_all (\<lambda>p. fst p = c) (crop_calls evs)"
    "new_croppers evs = [] \<Longrightarrow> cropper node = Object c"
proof -
  obtain node1 ev1 r1 where e: "ensure_cropper H node (cropper_init_config inp) = (node1, ev1, r1)"
    by (cases "ensure_cropper H node (cropper_init_config inp)") auto
  from assms e obtain c where r1: "r1 = Inr c"
    by (cases r1) (auto simp: LivePortraitCropper_process_def)
  note en = ensure_cropper_Inr [OF e [unfolded r1]] and ev = ensure_cropper_events [OF e]
  let ?loop = "crop_loop H c inp (to_uint8 T (c_source_image inp))
                 (map_option (to_uint8 T) (c_opt_driving_images inp))
                 [0..<length (to_uint8 T (c_source_image inp))] ([], [], [])"
  from crop_loop_events [of H c inp] have
    l: "list_all (\<lambda>p. fst p = c \<and> swapped_ratio_args inp (snd p)) (crop_calls (fst ?loop))"
    "new_croppers (fst ?loop) = []" by blast+
  from assms e r1 have evs: "crop_calls evs = crop_calls ev1 @ crop_calls (fst ?loop)"
    "new_croppers evs = new_croppers ev1 @ new_croppers (fst ?loop)"
    and node': "node' = (if c_keep_model_loaded inp then node1 else node1\<lparr> cropper := IsNone \<rparr>)"
    by (auto simp: LivePortraitCropper_process_def Let_def crop_calls_append new_croppers_append
        split: prod.splits sum.splits if_splits)
  show thesis
  proof (rule that [of c])
    from node' en(2) show "current_config node' = Some (cropper_init_config inp)" by simp
    from node' en(1) show "cropper node' = (if c_keep_model_loaded inp then Object c else IsNone)"
      by simp
    from evs(1) l(1) ev(1) show "list_all (\<lambda>p. fst p = c) (crop_calls evs)"
      by (auto simp: list_all_iff)
    assume "new_croppers evs = []"
    with evs(2) have "new_croppers ev1 = []" by simp
    then show "cropper node = Object c" by (rule en(3))
  qed
qed

lemma LivePortraitCropper_process_images:
  assumes "LivePortraitCropper_process T H node inp = (node', evs, Inr out)"
  shows "map (\<lambda>p. arg_image (snd p)) (crop_calls evs) =
           (case c_opt_driving_images inp of
              None \<Rightarrow> to_uint8 T (c_source_image inp)
            | Some d \<Rightarrow>
                concat (map (\<lambda>i. [to_uint8 T (c_source_image inp) ! i, to_uint8 T d ! i])
                         [0..<length (c_source_image inp)]))"
proof -
  obtain node1 ev1 r1 where e: "ensure_cropper H node (cropper_init_config inp) = (node1, ev1, r1)"
    by (cases "ensure_cropper H node (cropper_init_config inp)") auto
  from assms e obtain c where r1: "r1 = Inr c"
    by (cases r1) (auto simp: LivePortraitCropper_process_def)
  let ?src = "to_uint8 T (c_source_image inp)"
  let ?drv = "map_option (to_uint8 T) (c_opt_driving_images inp)"
  obtain ev2 r2 where l: "crop_loop H c inp ?src ?drv [0..<length ?src] ([], [], []) = (ev2, r2)"
    by (cases "crop_loop H c inp ?src ?drv [0..<length ?src] ([], [], [])") auto
  from assms e r1 l obtain acc' where r2: "r2 = Inr acc'"
    by (cases r2) (auto simp: LivePortraitCropper_process_def Let_def)
  from assms e r1 l r2 have evs: "crop_calls evs = crop_calls ev1 @ crop_calls ev2"
    by (auto simp: LivePortraitCropper_process_def Let_def crop_calls_append
        split: prod.splits if_splits)
  have len: "length ?src = length (c_source_image inp)"
    by (simp add: to_uint8_def)
  have nth: "map (\<lambda>i. ?src ! i) [0..<length (c_source_image inp)] = ?src"
    using map_nth [of ?src] by (simp only: len)
  from crop_loop_images [OF l [unfolded r2]] evs ensure_cropper_events(1) [OF e]
  show ?thesis
    by (cases "c_opt_driving_images inp") (simp_all add: nth len)
qed

lemma ensure_cropper_new:
  assumes "cropper node = NoAttribute \<or> cropper node = IsNone \<or>
           (\<exists>cur. current_config node = Some cur \<and> cur \<noteq> cfg)"
    and "new_Cropper H cfg = Inr c'"
  shows "ensure_cropper H node cfg =
           (node\<lparr> current_config := Some cfg, cropper := Object c' \<rparr>, [NewCropper cfg], Inr c')"
  using assms
  by (auto simp: ensure_cropper_def split: attribute.splits option.splits)

lemma LivePortraitCropper_process_with:
  assumes run: "LivePortraitCropper_process T H node inp = (node', evs, r)"
    and e: "ensure_cropper H node (cropper_init_config inp) = (node1, ev1, Inr c)"
  shows "list_all (\<lambda>p. fst p = c) (crop_calls evs)"
    and "current_config node' = current_config node1"
    and "cropper node' = cropper node1 \<or> (cropper node' = IsNone \<and> \<not> c_keep_model_loaded inp)"
    and "\<And>out. r = Inr out \<Longrightarrow>
           cropper node' = (if c_keep_model_loaded inp then cropper node1 else IsNone)"
proof -
  let ?loop = "crop_loop H c inp (to_uint8 T (c_source_image inp))
                 (map_option (to_uint8 T) (c_opt_driving_images inp))
                 [0..<length (to_uint8 T (c_source_image inp))] ([], [], [])"
  from crop_loop_events [of H c inp] have
    l: "list_all (\<lambda>p. fst p = c \<and> swapped_ratio_args inp (snd p)) (crop_calls (fst ?loop))"
    by blast
  from run e have evs: "crop_calls evs = crop_calls ev1 @ crop_calls (fst ?loop)"
    by (auto simp: LivePortraitCropper_process_def Let_def crop_calls_append
        split: prod.splits sum.splits if_splits)
  from evs l ensure_cropper_events(1) [OF e]
  show "list_all (\<lambda>p. fst p = c) (crop_calls evs)"
    by (auto simp: list_all_iff)
  from run e show "current_config node' = current_config node1"
    by (auto simp: LivePortraitCropper_process_def Let_def
        split: prod.splits sum.splits if_splits)
  from run e show
    "cropper node' = cropper node1 \<or> (cropper node' = IsNone \<and> \<not> c_keep_model_loaded inp)"
    by (auto simp: LivePortraitCropper_process_def Let_def
        split: prod.splits sum.splits if_splits)
  fix out
  assume "r = Inr out"
  with run e show "cropper node' = (if c_keep_model_loaded inp then cropper node1 else IsNone)"
    by (auto simp: LivePortraitCropper_process_def Let_def
        split: prod.splits sum.splits if_splits)
qed

lemma LivePortraitCropper_process_new:
  assumes run: "LivePortraitCropper_process T H node inp = (node', evs, r)"
    and needs: "cropper node = NoAttribute \<or> cropper node = IsNone \<or>
           (\<exists>cur. current_config node = Some cur \<and> cur \<noteq> cropper_init_config inp)"
    and new: "new_Cropper H (cropper_init_config inp) = Inr c'"
  shows "list_all (\<lambda>p. fst p = c') (crop_calls evs)"
    and "current_config node' = Some (cropper_init_config inp)"
    and "cropper node' = Object c' \<or> (cropper node' = IsNone \<and> \<not> c_keep_model_loaded inp)"
    and "\<And>out. r = Inr out \<Longrightarrow>
           cropper node' = (if c_keep_model_loaded inp then Object c' else IsNone)"
proof -
  note e = ensure_cropper_new [OF needs new]
  note w = LivePortraitCropper_process_with [OF run e]
  from w(1) show "list_all (\<lambda>p. fst p = c') (crop_calls evs)" .
  from w(2) show "current_config node' = Some (cropper_init_config inp)" by simp
  from w(3) show
    "cropper node' = Object c' \<or> (cropper node' = IsNone \<and> \<not> c_keep_model_loaded inp)"
    by simp
  fix out
  assume "r = Inr out"
  from w(4) [OF this]
  show "cropper node' = (if c_keep_model_loaded inp then Object c' else IsNone)"
    by simp
qed

lemma example_cropper_run:
  "LivePortraitCropper_process example_ops example_cropper_host fresh_node example_cropper_inputs =
     (example_cropper_node,
      NewCropper \<lparr> keep_model_loaded = True, onnx_device = ''CPU'' \<rparr> # example_crop_events,
      Inr example_cropper_output)"
  by (simp add: LivePortraitCropper_process_def ensure_cropper_def fresh_node_def
      example_cropper_inputs_def example_cropper_host_def example_ops_def example_frame_def
      cropper_init_config_def to_uint8_def from_uint8_def positional_crop_args_def
      example_cropper_node_def example_crop_events_def example_cropper_output_def)

lemma example_cropper_rerun:
  "LivePortraitCropper_process example_ops example_cropper_host example_cropper_node
     example_cropper_inputs =
     (example_cropper_node, example_crop_events, Inr example_cropper_output)"
  by (simp add: LivePortraitCropper_process_def ensure_cropper_def
      example_cropper_inputs_def example_cropper_host_def example_ops_def example_frame_def
      cropper_init_config_def to_uint8_def from_uint8_def positional_crop_args_def
      example_cropper_node_def example_crop_events_def example_cropper_output_def)

lemma example_short_driving_run:
  "LivePortraitCropper_process example_ops example_cropper_host fresh_node
     example_short_driving_inputs =
     (example_unreleased_node,
      [NewCropper \<lparr> keep_model_loaded = False, onnx_device = ''CPU'' \<rparr>,
       CropCall ''Cropper on CPU''
         \<lparr> arg_image = \<lparr> height = 4, width = 6, layout = HWC, dtype = UInt8, pixels = ''s0.byte'' \<rparr>,
           arg_dsize = 512, arg_scale = 23 / 10, arg_vx_ratio = - (1 / 8), arg_vy_ratio = 0,
           arg_face_index = 0, arg_rotate = True \<rparr>,
       CropCall ''Cropper on CPU''
         \<lparr> arg_image = \<lparr> height = 4, width = 6, layout = HWC, dtype = UInt8, pixels = ''d0.byte'' \<rparr>,
           arg_dsize = 512, arg_scale = 23 / 10, arg_vx_ratio = - (1 / 8), arg_vy_ratio = 0,
           arg_face_index = 0, arg_rotate = True \<rparr>,
       CropCall ''Cropper on CPU''
         \<lparr> arg_image = \<lparr> height = 4, width = 6, layout = HWC, dtype = UInt8, pixels = ''s1.byte'' \<rparr>,
           arg_dsize = 512, arg_scale = 23 / 10, arg_vx_ratio = - (1 / 8), arg_vy_ratio = 0,
           arg_face_index = 0, arg_rotate = True \<rparr>],
      Inl IndexError)"
  by (simp add: LivePortraitCropper_process_def ensure_cropper_def fresh_node_def
      example_short_driving_inputs_def example_unreleased_node_def
      example_cropper_inputs_def example_cropper_host_def example_ops_def example_frame_def
      cropper_init_config_def to_uint8_def from_uint8_def positional_crop_args_def upt_rec)

lemma example_unreleased_rerun:
  "LivePortraitCropper_process example_ops example_cropper_host example_unreleased_node
     (example_cropper_inputs\<lparr> c_keep_model_loaded := False \<rparr>) =
     (\<lparr> cropper = IsNone,
        current_config = Some \<lparr> keep_model_loaded = False, onnx_device = ''CPU'' \<rparr> \<rparr>,
      example_crop_events @ [SoftEmptyCache], Inr example_cropper_output)"
  by (simp add: LivePortraitCropper_process_def ensure_cropper_def
      example_unreleased_node_def
      example_cropper_inputs_def example_cropper_host_def example_ops_def example_frame_def
      cropper_init_config_def to_uint8_def from_uint8_def positional_crop_args_def
      example_crop_events_def example_cropper_output_def)

lemma example_cuda_run:
  "LivePortraitCropper_process example_ops example_cropper_host example_cropper_node
     example_cuda_inputs =
     (\<lparr> cropper = Object ''Cropper on CUDA'',
        current_config = Some \<lparr> keep_model_loaded = True, onnx_device = ''CUDA'' \<rparr> \<rparr>,
      [NewCropper \<lparr> keep_model_loaded = True, onnx_device = ''CUDA'' \<rparr>,
       CropCall ''Cropper on CUDA''
         \<lparr> arg_image = \<lparr> height = 4, width = 6, layout = HWC, dtype = UInt8, pixels = ''s0.byte'' \<rparr>,
           arg_dsize = 512, arg_scale = 23 / 10, arg_vx_ratio = - (1 / 8), arg_vy_ratio = 0,
           arg_face_index = 0, arg_rotate = True \<rparr>,
       CropCall ''Cropper on CUDA''
         \<lparr> arg_image = \<lparr> height = 4, width = 6, layout = HWC, dtype = UInt8, pixels = ''d0.byte'' \<rparr>,
           arg_dsize = 512, arg_scale = 23 / 10, arg_vx_ratio = - (1 / 8), arg_vy_ratio = 0,
           arg_face_index = 0, arg_rotate = True \<rparr>],
      Inr example_cropper_output)"
  by (simp add: LivePortraitCropper_process_def ensure_cropper_def
      example_cuda_inputs_def example_cropper_node_def
      example_cropper_inputs_def example_cropper_host_def example_ops_def example_frame_def
      cropper_init_config_def to_uint8_def from_uint8_def positional_crop_args_def
      example_cropper_output_def)

text \<open>
  C3, as stated, fails: with the node's defaults \<^verbatim>\<open>vx_ratio = 0\<close> and
  \<^verbatim>\<open>vy_ratio = -0.125\<close>, both crops receive \<open>-0.125\<close> in the contract's
  \<open>vx_ratio\<close> position and \<open>0\<close> in its \<open>vy_ratio\<close> position.
\<close>

theorem cropper_ratio_positions_counterexample:
  "crop_calls (fst (snd (LivePortraitCropper_process example_ops example_cropper_host fresh_node
                           example_cropper_inputs))) =
     [(''Cropper on CPU'',
       \<lparr> arg_image = \<lparr> height = 4, width = 6, layout = HWC, dtype = UInt8, pixels = ''s0.byte'' \<rparr>,
         arg_dsize = 512, arg_scale = 23 / 10, arg_vx_ratio = - (1 / 8), arg_vy_ratio = 0,
         arg_face_index = 0, arg_rotate = True \<rparr>),
      (''Cropper on CPU'',
       \<lparr> arg_image = \<lparr> height = 4, width = 6, layout = HWC, dtype = UInt8, pixels = ''d0.byte'' \<rparr>,
         arg_dsize = 512, arg_scale = 23 / 10, arg_vx_ratio = - (1 / 8), arg_vy_ratio = 0,
         arg_face_index = 0, arg_rotate = True \<rparr>)] \<and>
   c_vx_ratio example_cropper_inputs = 0 \<and>
   c_vy_ratio example_cropper_inputs = - (1 / 8)"
  by (simp add: example_cropper_run example_crop_events_def) (simp add: example_cropper_inputs_def)

text \<open>
  C3, amended. Every crop of a call receives the node's \<^verbatim>\<open>dsize\<close>, \<^verbatim>\<open>scale\<close>,
  \<^verbatim>\<open>face_index\<close> and \<^verbatim>\<open>rotate\<close> in their places, the node's \<^verbatim>\<open>vy_ratio\<close> as fourth
  positional argument and the node's \<^verbatim>\<open>vx_ratio\<close> as fifth; in a call that returns,
  the crops are those of the source frames, each followed by the crop of the driving
  frame of the same index when driving images are given.
\<close>

theorem cropper_ratio_positions:
  assumes "LivePortraitCropper_process T H node inp = (node', evs, r)"
  shows "list_all (\<lambda>p. swapped_ratio_args inp (snd p)) (crop_calls evs) \<and>
         (\<forall>out. r = Inr out \<longrightarrow>
            map (\<lambda>p. arg_image (snd p)) (crop_calls evs) =
              (case c_opt_driving_images inp of
                 None \<Rightarrow> to_uint8 T (c_source_image inp)
               | Some d \<Rightarrow>
                   concat (map (\<lambda>i. [to_uint8 T (c_source_image inp) ! i, to_uint8 T d ! i])
                            [0..<length (c_source_image inp)])))"
proof (intro conjI allI impI)
  from assms show "list_all (\<lambda>p. swapped_ratio_args inp (snd p)) (crop_calls evs)"
    by (rule LivePortraitCropper_process_events(2))
next
  fix out
  assume "r = Inr out"
  with assms have "LivePortraitCropper_process T H node inp = (node', evs, Inr out)" by simp
  then show "map (\<lambda>p. arg_image (snd p)) (crop_calls evs) =
              (case c_opt_driving_images inp of
                 None \<Rightarrow> to_uint8 T (c_source_image inp)
               | Some d \<Rightarrow>
                   concat (map (\<lambda>i. [to_uint8 T (c_source_image inp) ! i, to_uint8 T d ! i])
                            [0..<length (c_source_image inp)]))"
    by (rule LivePortraitCropper_process_images)
qed

theorem cropper_ratio_positions_witness:
  "LivePortraitCropper_process example_ops example_cropper_host fresh_node example_cropper_inputs =
     (example_cropper_node,
      NewCropper \<lparr> keep_model_loaded = True, onnx_device = ''CPU'' \<rparr> # example_crop_events,
      Inr example_cropper_output) \<and>
   list_all (\<lambda>p. arg_vx_ratio (snd p) = c_vy_ratio example_cropper_inputs \<and>
                  arg_vy_ratio (snd p) = c_vx_ratio example_cropper_inputs)
     (crop_calls (NewCropper \<lparr> keep_model_loaded = True, onnx_device = ''CPU'' \<rparr> # example_crop_events)) \<and>
   map (\<lambda>p. pixels (arg_image (snd p)))
     (crop_calls (NewCropper \<lparr> keep_model_loaded = True, onnx_device = ''CPU'' \<rparr> # example_crop_events)) =
     [''s0.byte'', ''d0.byte'']"
proof -
  from cropper_ratio_positions [OF example_cropper_run]
  have "list_all (\<lambda>p. swapped_ratio_args example_cropper_inputs (snd p))
          (crop_calls (NewCropper \<lparr> keep_model_loaded = True, onnx_device = ''CPU'' \<rparr> # example_crop_events))"
    by blast
  then have "list_all (\<lambda>p. arg_vx_ratio (snd p) = c_vy_ratio example_cropper_inputs \<and>
                  arg_vy_ratio (snd p) = c_vx_ratio example_cropper_inputs)
     (crop_calls (NewCropper \<lparr> keep_model_loaded = True, onnx_device = ''CPU'' \<rparr> # example_crop_events))"
    by (simp add: swapped_ratio_args_def list_all_iff)
  moreover have "map (\<lambda>p. pixels (arg_image (snd p)))
     (crop_calls (NewCropper \<lparr> keep_model_loaded = True, onnx_device = ''CPU'' \<rparr> # example_crop_events)) =
     [''s0.byte'', ''d0.byte'']"
    by (simp add: example_crop_events_def)
  ultimately show ?thesis
    using example_cropper_run by simp
qed

text \<open>
  C7, as stated, fails: a call with \<^verbatim>\<open>keep_model_loaded = False\<close> whose driving batch
  is shorter than its source batch raises IndexError in the loop (line 414) and skips
  the release of lines 419--421; the node keeps its cropper, and the next call with the
  same configuration constructs none.
\<close>

theorem cropper_lifecycle_counterexample:
  "LivePortraitCropper_process example_ops example_cropper_host fresh_node
     example_short_driving_inputs =
     (example_unreleased_node,
      [NewCropper \<lparr> keep_model_loaded = False, onnx_device = ''CPU'' \<rparr>,
       CropCall ''Cropper on CPU''
         \<lparr> arg_image = \<lparr> height = 4, width = 6, layout = HWC, dtype = UInt8, pixels = ''s0.byte'' \<rparr>,
           arg_dsize = 512, arg_scale = 23 / 10, arg_vx_ratio = - (1 / 8), arg_vy_ratio = 0,
           arg_face_index = 0, arg_rotate = True \<rparr>,
       CropCall ''Cropper on CPU''
         \<lparr> arg_image = \<lparr> height = 4, width = 6, layout = HWC, dtype = UInt8, pixels = ''d0.byte'' \<rparr>,
           arg_dsize = 512, arg_scale = 23 / 10, arg_vx_ratio = - (1 / 8), arg_vy_ratio = 0,
           arg_face_index = 0, arg_rotate = True \<rparr>,
       CropCall ''Cropper on CPU''
         \<lparr> arg_image = \<lparr> height = 4, width = 6, layout = HWC, dtype = UInt8, pixels = ''s1.byte'' \<rparr>,
           arg_dsize = 512, arg_scale = 23 / 10, arg_vx_ratio = - (1 / 8), arg_vy_ratio = 0,
           arg_face_index = 0, arg_rotate = True \<rparr>],
      Inl IndexError) \<and>
   c_keep_model_loaded example_short_driving_inputs = False \<and>
   cropper example_unreleased_node = Object ''Cropper on CPU'' \<and>
   cropper_init_config (example_cropper_inputs\<lparr> c_keep_model_loaded := False \<rparr>) =
     cropper_init_config example_short_driving_inputs \<and>
   LivePortraitCropper_process example_ops example_cropper_host example_unreleased_node
     (example_cropper_inputs\<lparr> c_keep_model_loaded := False \<rparr>) =
     (\<lparr> cropper = IsNone,
        current_config = Some \<lparr> keep_model_loaded = False, onnx_device = ''CPU'' \<rparr> \<rparr>,
      example_crop_events @ [SoftEmptyCache], Inr example_cropper_output) \<and>
   new_croppers (example_crop_events @ [SoftEmptyCache]) = []"
  by (simp add: example_short_driving_run example_unreleased_rerun)
    (simp add: example_short_driving_inputs_def example_unreleased_node_def
      cropper_init_config_def example_crop_events_def example_cropper_inputs_def)

text \<open>
  C7, amended. The first call on a fresh node constructs the cropper, crops with the
  object the constructor returned and stores it. After a call that returned, the node
  holds no cropper exactly when that call had \<^verbatim>\<open>keep_model_loaded = False\<close>. When the
  call before kept its cropper and the configuration
  \<^verbatim>\<open>(keep_model_loaded, onnx_device)\<close> is the same, the next call constructs none, crops
  with the one object the node holds, as the call before did, and leaves it in the
  node. Otherwise the next call constructs a cropper for its configuration, and with
  the object the constructor returns it does all its crops, stores it in the node, and
  on return keeps it or, with \<^verbatim>\<open>keep_model_loaded = False\<close>, releases it.
\<close>

theorem cropper_lifecycle:
  assumes call1: "LivePortraitCropper_process T H node inp1 = (node1, evs1, Inr out1)"
    and call2: "LivePortraitCropper_process T H node1 inp2 = (node2, evs2, r2)"
  shows "new_croppers (fst (snd (LivePortraitCropper_process T H fresh_node inp0))) =
           [cropper_init_config inp0] \<and>
         (\<forall>c0. new_Cropper H (cropper_init_config inp0) = Inr c0 \<longrightarrow>
            list_all (\<lambda>p. fst p = c0)
              (crop_calls (fst (snd (LivePortraitCropper_process T H fresh_node inp0)))) \<and>
            (cropper (fst (LivePortraitCropper_process T H fresh_node inp0)) = Object c0 \<or>
             cropper (fst (LivePortraitCropper_process T H fresh_node inp0)) = IsNone \<and>
             \<not> c_keep_model_loaded inp0)) \<and>
         (cropper node1 = IsNone) = (\<not> c_keep_model_loaded inp1) \<and>
         new_croppers evs2 =
           (if c_keep_model_loaded inp1 \<and> cropper_init_config inp2 = cropper_init_config inp1
            then [] else [cropper_init_config inp2]) \<and>
         (c_keep_model_loaded inp1 \<and> cropper_init_config inp2 = cropper_init_config inp1 \<longrightarrow>
            (\<exists>c. cropper node1 = Object c \<and> cropper node2 = Object c \<and>
                 list_all (\<lambda>p. fst p = c) (crop_calls evs1 @ crop_calls evs2))) \<and>
         (\<not> (c_keep_model_loaded inp1 \<and> cropper_init_config inp2 = cropper_init_config inp1) \<longrightarrow>
            (\<forall>c'. new_Cropper H (cropper_init_config inp2) = Inr c' \<longrightarrow>
               list_all (\<lambda>p. fst p = c') (crop_calls evs2) \<and>
               current_config node2 = Some (cropper_init_config inp2) \<and>
               (cropper node2 = Object c' \<or>
                cropper node2 = IsNone \<and> \<not> c_keep_model_loaded inp2) \<and>
               (\<forall>out2. r2 = Inr out2 \<longrightarrow>
                  cropper node2 = (if c_keep_model_loaded inp2 then Object c' else IsNone))))"
proof -
  let ?first = "LivePortraitCropper_process T H fresh_node inp0"
  obtain n0 e0 r0 where first: "?first = (n0, e0, r0)"
    by (cases ?first) auto
  have fresh: "cropper (fresh_node :: 'a cropper_node) = NoAttribute \<or>
      cropper (fresh_node :: 'a cropper_node) = IsNone \<or>
      (\<exists>cur. current_config (fresh_node :: 'a cropper_node) = Some cur \<and>
             cur \<noteq> cropper_init_config inp0)"
    by (simp add: fresh_node_def)
  from LivePortraitCropper_process_events(1) [OF first]
  have "new_croppers e0 = [cropper_init_config inp0]"
    by (simp add: fresh_node_def)
  then have a: "new_croppers (fst (snd ?first)) = [cropper_init_config inp0]"
    by (simp add: first)
  have a': "list_all (\<lambda>p. fst p = c0) (crop_calls (fst (snd ?first))) \<and>
      (cropper (fst ?first) = Object c0 \<or>
       cropper (fst ?first) = IsNone \<and> \<not> c_keep_model_loaded inp0)"
    if new: "new_Cropper H (cropper_init_config inp0) = Inr c0" for c0
    using LivePortraitCropper_process_new(1,3) [OF first fresh new]
    by (simp add: first)
  from call1 obtain c where n1: "current_config node1 = Some (cropper_init_config inp1)"
    "cropper node1 = (if c_keep_model_loaded inp1 then Object c else IsNone)"
    "list_all (\<lambda>p. fst p = c) (crop_calls evs1)"
    by (rule LivePortraitCropper_process_Inr)
  from n1(2) have b: "(cropper node1 = IsNone) = (\<not> c_keep_model_loaded inp1)"
    by simp
  from LivePortraitCropper_process_events(1) [OF call2] n1(1,2)
  have c: "new_croppers evs2 =
      (if c_keep_model_loaded inp1 \<and> cropper_init_config inp2 = cropper_init_config inp1
       then [] else [cropper_init_config inp2])"
    by auto
  have d: "\<exists>c. cropper node1 = Object c \<and> cropper node2 = Object c \<and>
        list_all (\<lambda>p. fst p = c) (crop_calls evs1 @ crop_calls evs2)"
    if k: "c_keep_model_loaded inp1 \<and> cropper_init_config inp2 = cropper_init_config inp1"
  proof -
    from k n1(2) have o: "cropper node1 = Object c" by simp
    from k have k2: "c_keep_model_loaded inp2"
      by (auto simp: cropper_init_config_def)
    from o n1(1) k have e: "ensure_cropper H node1 (cropper_init_config inp2) = (node1, [], Inr c)"
      by (simp add: ensure_cropper_def)
    note w = LivePortraitCropper_process_with [OF call2 e]
    from w(3) k2 o have "cropper node2 = Object c" by simp
    with w(1) n1(3) o show ?thesis by auto
  qed
  have e: "list_all (\<lambda>p. fst p = c') (crop_calls evs2) \<and>
      current_config node2 = Some (cropper_init_config inp2) \<and>
      (cropper node2 = Object c' \<or> cropper node2 = IsNone \<and> \<not> c_keep_model_loaded inp2) \<and>
      (\<forall>out2. r2 = Inr out2 \<longrightarrow>
         cropper node2 = (if c_keep_model_loaded inp2 then Object c' else IsNone))"
    if nk: "\<not> (c_keep_model_loaded inp1 \<and> cropper_init_config inp2 = cropper_init_config inp1)"
      and new: "new_Cropper H (cropper_init_config inp2) = Inr c'" for c'
  proof -
    from nk n1(1,2) have needs: "cropper node1 = NoAttribute \<or> cropper node1 = IsNone \<or>
        (\<exists>cur. current_config node1 = Some cur \<and> cur \<noteq> cropper_init_config inp2)"
      by auto
    note w = LivePortraitCropper_process_new [OF call2 needs new]
    from w(1) w(2) w(3) w(4) show ?thesis by blast
  qed
  from a a' b c d e show ?thesis by blast
qed

theorem cropper_lifecycle_witness:
  "LivePortraitCropper_process example_ops example_cropper_host fresh_node example_cropper_inputs =
     (example_cropper_node,
      NewCropper \<lparr> keep_model_loaded = True, onnx_device = ''CPU'' \<rparr> # example_crop_events,
      Inr example_cropper_output) \<and>
   LivePortraitCropper_process example_ops example_cropper_host example_cropper_node
     example_cropper_inputs =
     (example_cropper_node, example_crop_events, Inr example_cropper_output) \<and>
   c_keep_model_loaded example_cropper_inputs \<and>
   new_croppers example_crop_events = [] \<and>
   cropper example_cropper_node = Object ''Cropper on CPU'' \<and>
   list_all (\<lambda>p. fst p = ''Cropper on CPU'')
     (crop_calls (NewCropper \<lparr> keep_model_loaded = True, onnx_device = ''CPU'' \<rparr> # example_crop_events) @
      crop_calls example_crop_events) \<and>
   cropper_init_config example_cuda_inputs \<noteq> cropper_init_config example_cropper_inputs \<and>
   new_Cropper example_cropper_host (cropper_init_config example_cuda_inputs) = Inr ''Cropper on CUDA'' \<and>
   new_croppers (fst (snd (LivePortraitCropper_process example_ops example_cropper_host
                             example_cropper_node example_cuda_inputs))) =
     [\<lparr> keep_model_loaded = True, onnx_device = ''CUDA'' \<rparr>] \<and>
   map fst (crop_calls (fst (snd (LivePortraitCropper_process example_ops example_cropper_host
                                    example_cropper_node example_cuda_inputs)))) =
     [''Cropper on CUDA'', ''Cropper on CUDA''] \<and>
   list_all (\<lambda>p. fst p = ''Cropper on CUDA'')
     (crop_calls (fst (snd (LivePortraitCropper_process example_ops example_cropper_host
                              example_cropper_node example_cuda_inputs)))) \<and>
   cropper (fst (LivePortraitCropper_process example_ops example_cropper_host
                   example_cropper_node example_cuda_inputs)) = Object ''Cropper on CUDA''"
proof -
  have k: "c_keep_model_loaded example_cropper_inputs"
    by (simp add: example_cropper_inputs_def)
  have o: "cropper example_cropper_node = Object ''Cropper on CPU''"
    by (simp add: example_cropper_node_def)
  have ne: "cropper_init_config example_cuda_inputs \<noteq> cropper_init_config example_cropper_inputs"
    by (simp add: cropper_init_config_def example_cuda_inputs_def example_cropper_inputs_def)
  have new: "new_Cropper example_cropper_host (cropper_init_config example_cuda_inputs) =
      Inr ''Cropper on CUDA''"
    by (simp add: cropper_init_config_def example_cuda_inputs_def example_cropper_inputs_def
        example_cropper_host_def)
  have k2: "c_keep_model_loaded example_cuda_inputs"
    by (simp add: example_cuda_inputs_def example_cropper_inputs_def)
  have cfg2: "cropper_init_config example_cuda_inputs =
      \<lparr> keep_model_loaded = True, onnx_device = ''CUDA'' \<rparr>"
    by (simp add: cropper_init_config_def example_cuda_inputs_def example_cropper_inputs_def)
  note l = cropper_lifecycle [OF example_cropper_run example_cropper_rerun]
  note l2 = cropper_lifecycle [OF example_cropper_run example_cuda_run]
  from l k have r1: "new_croppers example_crop_events = []"
    by simp
  from l k o have r2: "list_all (\<lambda>p. fst p = ''Cropper on CPU'')
     (crop_calls (NewCropper \<lparr> keep_model_loaded = True, onnx_device = ''CPU'' \<rparr> # example_crop_events) @
      crop_calls example_crop_events)"
    by auto
  let ?run = "LivePortraitCropper_process example_ops example_cropper_host
                example_cropper_node example_cuda_inputs"
  from l2 ne have "new_croppers (fst (snd ?run)) = [cropper_init_config example_cuda_inputs]"
    by (simp add: example_cuda_run)
  then have r3: "new_croppers (fst (snd ?run)) =
      [\<lparr> keep_model_loaded = True, onnx_device = ''CUDA'' \<rparr>]"
    by (simp only: cfg2)
  from l2 ne new k2 have r4: "list_all (\<lambda>p. fst p = ''Cropper on CUDA'') (crop_calls (fst (snd ?run)))"
    and r5: "cropper (fst ?run) = Object ''Cropper on CUDA''"
    by (auto simp: example_cuda_run)
  have r6: "map fst (crop_calls (fst (snd ?run))) = [''Cropper on CUDA'', ''Cropper on CUDA'']"
    by (simp add: example_cuda_run)
  from example_cropper_run example_cropper_rerun k r1 o r2 ne new r3 r6 r4 r5
  show ?thesis
    by (intro conjI)
qed

section \<open>Properties of KeypointScaler\<close>

lemma final_keypoints_spec:
  "final_keypoints kps ox oy s = scaled_about_centroid kps s ox oy"
  by (simp add: final_keypoints_def scaled_about_centroid_def centroid_def mean_axis0_def
      sub_row_def add_row_def mul_scalar_def Let_def)

lemma scaled_about_centroid_id: "scaled_about_centroid kps 1 0 0 = kps"
  by (simp add: scaled_about_centroid_def map_idI)

lemma getitem_RefE:
  assumes "getitem h v k = Inr x"
  obtains a d where "v = PyRef a" "h a = Some d" "d k = Some x"
  using assms by (auto simp: getitem_def split: pyval.splits option.splits)

lemma KeypointScaler_process_ok:
  assumes "getitem h ci ''crop_info'' = Inr inner"
    and "getitem h inner ''lmk_crop'' = Inr (PyArray kps)"
  obtains ia d where "inner = PyRef ia" "h ia = Some d"
    "KeypointScaler_process h ci ox oy s =
       (h(ia \<mapsto> d(''lmk_crop'' \<mapsto> PyArray (final_keypoints kps ox oy s))),
        Inr (ci, draw_keypoints 512 512 (final_keypoints kps ox oy s)))"
proof -
  from assms(2) obtain ia d where i: "inner = PyRef ia" "h ia = Some d"
    by (rule getitem_RefE)
  from assms i have
    "KeypointScaler_process h ci ox oy s =
       (h(ia \<mapsto> d(''lmk_crop'' \<mapsto> PyArray (final_keypoints kps ox oy s))),
        Inr (ci, draw_keypoints 512 512 (final_keypoints kps ox oy s)))"
    by (simp add: KeypointScaler_process_def setitem_def Let_def)
  with i show thesis by (rule that)
qed

lemma lmk_crop_of_after:
  assumes "getitem h ci ''crop_info'' = Inr (PyRef ia)" and "h ia = Some d"
  shows "lmk_crop_of (h(ia \<mapsto> d(''lmk_crop'' \<mapsto> v))) ci = Inr v"
proof -
  from assms(1) obtain a d0 where a: "ci = PyRef a" "h a = Some d0" "d0 ''crop_info'' = Some (PyRef ia)"
    by (rule getitem_RefE)
  show ?thesis
  proof (cases "a = ia")
    case True
    with a assms(2) show ?thesis
      by (simp add: lmk_crop_of_def getitem_def)
  next
    case False
    with a assms(2) show ?thesis
      by (simp add: lmk_crop_of_def getitem_def)
  qed
qed

text \<open>
  C9. Whenever the input holds a landmark array at
  \<^verbatim>\<open>crop_info['crop_info']['lmk_crop']\<close>, \<^verbatim>\<open>KeypointScaler.process\<close> returns, and the
  landmarks read through the returned crop info are, point by point,
  \<open>(p - centroid) * scale + centroid + (offset_x, offset_y)\<close> with \<open>centroid\<close> the
  arithmetic mean of the input landmarks. Over exact arithmetic, scale 1 with zero
  offsets gives the input landmarks back.
\<close>

theorem KeypointScaler_process_landmarks:
  assumes "lmk_crop_of h crop_info = Inr (PyArray kps)"
  shows "(\<exists>h' img.
            KeypointScaler_process h crop_info offset_x offset_y scale = (h', Inr (crop_info, img)) \<and>
            lmk_crop_of h' crop_info =
              Inr (PyArray (scaled_about_centroid kps scale offset_x offset_y))) \<and>
         (\<exists>h' img.
            KeypointScaler_process h crop_info 0 0 1 = (h', Inr (crop_info, img)) \<and>
            lmk_crop_of h' crop_info = Inr (PyArray kps))"
proof -
  from assms obtain inner where g: "getitem h crop_info ''crop_info'' = Inr inner"
    "getitem h inner ''lmk_crop'' = Inr (PyArray kps)"
    by (auto simp: lmk_crop_of_def split: sum.splits)
  have *: "\<exists>h' img.
      KeypointScaler_process h crop_info ox oy s = (h', Inr (crop_info, img)) \<and>
      lmk_crop_of h' crop_info = Inr (PyArray (scaled_about_centroid kps s ox oy))" for ox oy s
  proof -
    from g obtain ia d where i: "inner = PyRef ia" "h ia = Some d"
      "KeypointScaler_process h crop_info ox oy s =
         (h(ia \<mapsto> d(''lmk_crop'' \<mapsto> PyArray (final_keypoints kps ox oy s))),
          Inr (crop_info, draw_keypoints 512 512 (final_keypoints kps ox oy s)))"
      by (rule KeypointScaler_process_ok)
    from g(1) i(1,2) have
      "lmk_crop_of (h(ia \<mapsto> d(''lmk_crop'' \<mapsto> PyArray (final_keypoints kps ox oy s)))) crop_info =
         Inr (PyArray (final_keypoints kps ox oy s))"
      by (simp add: lmk_crop_of_after)
    with i(3) show ?thesis
      by (simp add: final_keypoints_spec)
  qed
  from * [of 0 0 1] have "\<exists>h' img.
           KeypointScaler_process h crop_info 0 0 1 = (h', Inr (crop_info, img)) \<and>
           lmk_crop_of h' crop_info = Inr (PyArray kps)"
    by (simp add: scaled_about_centroid_id)
  with * [of offset_x offset_y scale] show ?thesis
    by (rule conjI)
qed

text \<open>
  The store of the example: the outer dictionary at address 0, the inner one at address 1
  with the landmarks \<open>(0, 0)\<close> and \<open>(2, 4)\<close>, whose centroid is \<open>(1, 2)\<close>.
\<close>

theorem KeypointScaler_process_landmarks_witness:
  "lmk_crop_of [0 \<mapsto> [''crop_info'' \<mapsto> PyRef 1], 1 \<mapsto> [''lmk_crop'' \<mapsto> PyArray [(0, 0), (2, 4)]]]
      (PyRef 0) = Inr (PyArray [(0, 0), (2, 4)]) \<and>
   (\<exists>h' img.
      KeypointScaler_process
        [0 \<mapsto> [''crop_info'' \<mapsto> PyRef 1], 1 \<mapsto> [''lmk_crop'' \<mapsto> PyArray [(0, 0), (2, 4)]]]
        (PyRef 0) 1 (- 1) 2 = (h', Inr (PyRef 0, img)) \<and>
      lmk_crop_of h' (PyRef 0) = Inr (PyArray [(0, - 3), (4, 5)]))"
proof -
  let ?h = "[0 \<mapsto> [''crop_info'' \<mapsto> PyRef 1],
             1 \<mapsto> [''lmk_crop'' \<mapsto> PyArray [(0, 0), (2, 4)]]] :: heap"
  have pre: "lmk_crop_of ?h (PyRef 0) = Inr (PyArray [(0, 0), (2, 4)])"
    by (simp add: lmk_crop_of_def getitem_def)
  have val: "scaled_about_centroid [(0, 0), (2, 4)] 2 1 (- 1) = [(0, - 3), (4, 5)]"
    by (simp add: scaled_about_centroid_def centroid_def)
  from KeypointScaler_process_landmarks [OF pre, of 1 "- 1" 2] pre val
  show ?thesis by simp
qed

lemma KeypointScaler_process_InrD:
  assumes "KeypointScaler_process h ci ox oy s = (h', Inr r)"
  obtains inner kps where "getitem h ci ''crop_info'' = Inr inner"
    "getitem h inner ''lmk_crop'' = Inr (PyArray kps)"
  using assms
  by (auto simp: KeypointScaler_process_def Let_def split: sum.splits pyval.splits)

text \<open>
  C10. \<^verbatim>\<open>KeypointScaler.process\<close> mutates its input: the crop info it returns is the
  reference it received, and the store after the call differs from the store before it
  in one place only, the \<^verbatim>\<open>'lmk_crop'\<close> entry of the dictionary
  \<^verbatim>\<open>crop_info['crop_info']\<close>, which now holds the transformed landmarks; reading
  the landmarks through the object yields the transformed ones, not the original.
\<close>

theorem KeypointScaler_process_mutates_input:
  assumes "KeypointScaler_process h crop_info offset_x offset_y scale = (h', Inr (crop_info', img))"
  shows "crop_info' = crop_info \<and>
         (\<exists>ia d kps.
            getitem h crop_info ''crop_info'' = Inr (PyRef ia) \<and> h ia = Some d \<and>
            d ''lmk_crop'' = Some (PyArray kps) \<and>
            h' = h(ia \<mapsto> d(''lmk_crop'' \<mapsto> PyArray (final_keypoints kps offset_x offset_y scale))) \<and>
            getitem h' crop_info' ''crop_info'' = Inr (PyRef ia) \<and>
            lmk_crop_of h' crop_info' = Inr (PyArray (final_keypoints kps offset_x offset_y scale)))"
proof -
  from assms obtain inner kps where g: "getitem h crop_info ''crop_info'' = Inr inner"
    "getitem h inner ''lmk_crop'' = Inr (PyArray kps)"
    by (rule KeypointScaler_process_InrD)
  let ?new = "PyArray (final_keypoints kps offset_x offset_y scale)"
  from g obtain ia d where i: "inner = PyRef ia" "h ia = Some d"
    "KeypointScaler_process h crop_info offset_x offset_y scale =
       (h(ia \<mapsto> d(''lmk_crop'' \<mapsto> ?new)), Inr (crop_info, draw_keypoints 512 512 (final_keypoints kps offset_x offset_y scale)))"
    by (rule KeypointScaler_process_ok)
  from assms i(3) have r: "h' = h(ia \<mapsto> d(''lmk_crop'' \<mapsto> ?new))" "crop_info' = crop_info"
    by simp_all
  from g(2) i(1,2) have k: "d ''lmk_crop'' = Some (PyArray kps)"
    by (simp add: getitem_def split: option.splits)
  from g(1) i(1,2) have l: "lmk_crop_of (h(ia \<mapsto> d(''lmk_crop'' \<mapsto> ?new))) crop_info = Inr ?new"
    by (simp add: lmk_crop_of_after)
  from g(1) i(1) obtain a d0 where a: "crop_info = PyRef a" "h a = Some d0"
    "d0 ''crop_info'' = Some (PyRef ia)"
    by (auto elim: getitem_RefE)
  from a i(2) have c: "getitem (h(ia \<mapsto> d(''lmk_crop'' \<mapsto> ?new))) crop_info ''crop_info'' = Inr (PyRef ia)"
    by (cases "a = ia") (simp_all add: getitem_def)
  from g(1) i(1,2) k l c r show ?thesis
    by simp
qed

text \<open>
  The store of the example: two outer dictionaries, at addresses 0 and 2, share the inner
  dictionary at address 1, which holds the one landmark \<open>(10, 20)\<close>.
\<close>

theorem KeypointScaler_process_mutates_input_witness:
  "KeypointScaler_process
     [0 \<mapsto> [''crop_info'' \<mapsto> PyRef 1], 1 \<mapsto> [''lmk_crop'' \<mapsto> PyArray [(10, 20)]],
      2 \<mapsto> [''crop_info'' \<mapsto> PyRef 1]]
     (PyRef 0) 3 4 5 =
     ([0 \<mapsto> [''crop_info'' \<mapsto> PyRef 1], 1 \<mapsto> [''lmk_crop'' \<mapsto> PyArray [(13, 24)]],
       2 \<mapsto> [''crop_info'' \<mapsto> PyRef 1]],
      Inr (PyRef 0, \<lparr> img_width = 512, img_height = 512, circles = [(13, 24)] \<rparr>)) \<and>
   lmk_crop_of
     [0 \<mapsto> [''crop_info'' \<mapsto> PyRef 1], 1 \<mapsto> [''lmk_crop'' \<mapsto> PyArray [(13, 24)]],
      2 \<mapsto> [''crop_info'' \<mapsto> PyRef 1]]
     (PyRef 2) = Inr (PyArray [(13, 24)])"
proof -
  let ?h = "[0 \<mapsto> [''crop_info'' \<mapsto> PyRef 1], 1 \<mapsto> [''lmk_crop'' \<mapsto> PyArray [(10, 20)]],
             2 \<mapsto> [''crop_info'' \<mapsto> PyRef 1]] :: heap"
  let ?h' = "[0 \<mapsto> [''crop_info'' \<mapsto> PyRef 1], 1 \<mapsto> [''lmk_crop'' \<mapsto> PyArray [(13, 24)]],
              2 \<mapsto> [''crop_info'' \<mapsto> PyRef 1]] :: heap"
  have fin: "final_keypoints [(10, 20)] 3 4 5 = [(13, 24)]"
    by (simp add: final_keypoints_def mean_axis0_def sub_row_def add_row_def mul_scalar_def)
  have run0: "KeypointScaler_process ?h (PyRef 0) 3 4 5 =
      (?h(1 \<mapsto> [''lmk_crop'' \<mapsto> PyArray [(10, 20)], ''lmk_crop'' \<mapsto> PyArray [(13, 24)]]),
       Inr (PyRef 0, \<lparr> img_width = 512, img_height = 512, circles = [(13, 24)] \<rparr>))"
    by (simp add: KeypointScaler_process_def getitem_def setitem_def fin
        draw_keypoints_def py_int_def)
  have upd: "?h(1 \<mapsto> [''lmk_crop'' \<mapsto> PyArray [(10, 20)], ''lmk_crop'' \<mapsto> PyArray [(13, 24)]]) = ?h'"
    by (rule ext) simp
  have run: "KeypointScaler_process ?h (PyRef 0) 3 4 5 =
      (?h', Inr (PyRef 0, \<lparr> img_width = 512, img_height = 512, circles = [(13, 24)] \<rparr>))"
    by (simp only: run0 upd)
  have rd: "lmk_crop_of ?h' (PyRef 2) = Inr (PyArray [(13, 24)])"
    by (simp add: lmk_crop_of_def getitem_def)
  from KeypointScaler_process_mutates_input [OF run] run rd show ?thesis
    by (simp only: simp_thms)
qed

end
